theory Spec2Isabelle
  imports Complex_Main "HOL-Library.Sublist" "HOL-Library.Log_Nat"
begin

section \<open>JavaScript values\<close>

text \<open>
  Money, quantities, page numbers and instants (milliseconds since the epoch) are integral
  JavaScript numbers and are modelled as \<open>int\<close>; a fractional number is the rational
  value of the double that holds it. The products and quotients of the money computations
  (\<open>subtotal * 0.1\<close>, \<open>subtotal * (value / 100)\<close>) are rounded to double precision by
  \<open>double\<close> below; the quotients \<open>total / limit\<close> and \<open>totalRevenue / totalOrders\<close> are kept
  exact. A division whose result is not a finite number (\<open>NaN\<close>, \<open>Infinity\<close>) is \<open>None\<close>.
\<close>

text \<open>
  \<open>double x\<close> is the binary64 number nearest to \<open>x\<close>, ties to the even significand: with
  \<open>2 ^ e \<le> |x| < 2 ^ (e + 1)\<close> the spacing of the doubles around \<open>x\<close> is \<open>2 ^ (e - 52)\<close>.
  Overflow and subnormal numbers are not modelled (the amounts are far from both).
\<close>

definition round_to_even :: "rat \<Rightarrow> int" where
  "round_to_even r =
     (let f = \<lfloor>r\<rfloor>; d = r - of_int f
      in if d < 1 / 2 then f else if 1 / 2 < d then f + 1 else if even f then f else f + 1)"

definition binary_exponent :: "rat \<Rightarrow> int" where
  "binary_exponent x =
     (let k = bitlen (fst (quotient_of x)) - bitlen (snd (quotient_of x))
      in if power_int 2 k \<le> x then k else k - 1)"

definition double :: "rat \<Rightarrow> rat" where
  "double x =
     (if x = 0 then 0
      else let ulp = power_int 2 (binary_exponent \<bar>x\<bar> - 52)
           in of_int (round_to_even (x / ulp)) * ulp)"

definition Math_round :: "rat \<Rightarrow> int" where
  "Math_round x = \<lfloor>x + 1 / 2\<rfloor>"

definition Math_ceil :: "rat \<Rightarrow> int" where
  "Math_ceil x = \<lceil>x\<rceil>"

definition Math_floor :: "rat \<Rightarrow> int" where
  "Math_floor x = \<lfloor>x\<rfloor>"

definition js_divide :: "int \<Rightarrow> int \<Rightarrow> rat option" where
  "js_divide a b = (if b = 0 then None else Some (of_int a / of_int b))"

text \<open>
  A property of an object literal that may be written as \<open>undefined\<close>: it is absent from
  the object, present with the value \<open>undefined\<close>, or present with a value.
\<close>

datatype 'a property = Missing | Undefined | Value 'a

text \<open>\<open>n || undefined\<close> on a number: zero is falsy.\<close>

definition or_undefined :: "int \<Rightarrow> int property" where
  "or_undefined n = (if n = 0 then Undefined else Value n)"

text \<open>\<open>xs || []\<close> on an optional array.\<close>

definition or_empty :: "'a list option \<Rightarrow> 'a list" where
  "or_empty xs = (case xs of None \<Rightarrow> [] | Some ys \<Rightarrow> ys)"

text \<open>Truthiness of an optional string and of an optional number.\<close>

definition truthy_string :: "string option \<Rightarrow> bool" where
  "truthy_string s = (case s of None \<Rightarrow> False | Some t \<Rightarrow> t \<noteq> [])"

definition truthy_number :: "int option \<Rightarrow> bool" where
  "truthy_number n = (case n of None \<Rightarrow> False | Some k \<Rightarrow> k \<noteq> 0)"

text \<open>
  Strings are byte strings; \<open>toUpperCase\<close> and \<open>toLowerCase\<close> are modelled on the ASCII
  letters and leave every other character alone. \<open>str_includes\<close> is the contiguous
  substring test of \<open>includes\<close>, \<open>trim\<close> removes leading and trailing ASCII white space.
\<close>

definition upper_char :: "char \<Rightarrow> char" where
  "upper_char c =
     (let n = (of_char c :: nat) in if 97 \<le> n \<and> n \<le> 122 then char_of (n - 32) else c)"

definition lower_char :: "char \<Rightarrow> char" where
  "lower_char c =
     (let n = (of_char c :: nat) in if 65 \<le> n \<and> n \<le> 90 then char_of (n + 32) else c)"

definition toUpperCase :: "string \<Rightarrow> string" where
  "toUpperCase s = map upper_char s"

definition toLowerCase :: "string \<Rightarrow> string" where
  "toLowerCase s = map lower_char s"

fun str_includes :: "string \<Rightarrow> string \<Rightarrow> bool" where
  "str_includes [] t = (t = [])"
| "str_includes (c # s) t = (prefix t (c # s) \<or> str_includes s t)"

definition is_space :: "char \<Rightarrow> bool" where
  "is_space c = ((of_char c :: nat) \<in> {9, 10, 11, 12, 13, 32})"

definition trim :: "string \<Rightarrow> string" where
  "trim s = rev (dropWhile is_space (rev (dropWhile is_space s)))"

text \<open>
  A thrown \<open>Error\<close>. \<open>Failed m e\<close> is the error a \<open>catch\<close> block rethrows as
  \<open>new Error(`m: ${e}`)\<close>; \<open>Unavailable\<close>, \<open>NoSuchDocument\<close> and \<open>AlreadyExists\<close> are
  the rejections of the document store itself, \<open>UndefinedValue f\<close> is the refusal of the
  store client to write a document whose field \<open>f\<close> holds \<open>undefined\<close>.
\<close>

datatype error =
    Unavailable
  | NoSuchDocument
  | AlreadyExists
  | UndefinedValue string
  | Error string
  | Failed string error

section \<open>The document store (BaseRepository)\<close>

text \<open>
  A collection holds its documents by id, in insertion order. \<open>reachable = False\<close>
  models a store whose round trips reject. How the store evaluates filters and orderings
  is not code of the repository: it is the parameter \<open>fs\<close> of every query below, giving
  the complete ordered answer to a list of \<open>where\<close> clauses and an optional \<open>orderBy\<close>
  over the stored documents. \<open>limit n\<close> keeps the first \<open>n\<close> documents of that answer
  and \<open>count()\<close> is its length. The request schema admits limits from 1 to 100 only;
  what the store does with a limit below 1 is not modelled (here it keeps nothing). A
  document read from the store always carries data, so \<open>transformDocument\<close> never
  throws and is the identity on the modelled fields.

  The store client is the default one (\<open>getFirestore()\<close> with no settings, so without
  \<open>ignoreUndefinedProperties\<close>): before any round trip it refuses to write a document in
  which a property holds \<open>undefined\<close>. \<open>create\<close> takes the function that lists those
  properties of a document, in the order of its fields.
\<close>

record FirestoreDocument =
  createdAt :: int
  updatedAt :: int

record 'd collection =
  docs :: "(string \<times> 'd) list"
  reachable :: bool

datatype fsValue = VString string | VBool bool | VDate int

datatype WhereFilterOp = Eq | Le | Ge

datatype OrderByDirection = Asc | Desc

record Query =
  wheres :: "(string \<times> WhereFilterOp \<times> fsValue) list"
  orderBy :: "(string \<times> OrderByDirection) option"
  limitTo :: "int option"

type_synonym 'd engine =
  "(string \<times> WhereFilterOp \<times> fsValue) list \<Rightarrow> (string \<times> OrderByDirection) option
      \<Rightarrow> (string \<times> 'd) list \<Rightarrow> 'd list"

definition getCollection :: Query where
  "getCollection = \<lparr>wheres = [], orderBy = None, limitTo = None\<rparr>"

definition where_clause :: "string \<Rightarrow> WhereFilterOp \<Rightarrow> fsValue \<Rightarrow> Query \<Rightarrow> Query" where
  "where_clause f op v q = q\<lparr>wheres := wheres q @ [(f, op, v)]\<rparr>"

definition query_get :: "'d engine \<Rightarrow> 'd collection \<Rightarrow> Query \<Rightarrow> error + 'd list" where
  "query_get fs st q =
     (if \<not> reachable st then Inl Unavailable
      else let matching = fs (wheres q) (orderBy q) (docs st)
           in Inr (case limitTo q of None \<Rightarrow> matching | Some n \<Rightarrow> take (nat n) matching))"

definition query_count :: "'d engine \<Rightarrow> 'd collection \<Rightarrow> Query \<Rightarrow> error + int" where
  "query_count fs st q =
     (if \<not> reachable st then Inl Unavailable
      else Inr (int (length (fs (wheres q) (orderBy q) (docs st)))))"

text \<open>\<open>try { ... } catch (error) { throw new Error(`m: ${error}`) }\<close>\<close>

definition rethrow :: "string \<Rightarrow> error + 'a \<Rightarrow> error + 'a" where
  "rethrow m r = (case r of Inl e \<Rightarrow> Inl (Failed m e) | Inr v \<Rightarrow> Inr v)"

definition create ::
  "('m FirestoreDocument_scheme \<Rightarrow> string list) \<Rightarrow> int \<Rightarrow> string \<Rightarrow> ('m FirestoreDocument_scheme)
     \<Rightarrow> ('m FirestoreDocument_scheme) collection
     \<Rightarrow> (error + string) \<times> ('m FirestoreDocument_scheme) collection" where
  "create undefined_fields ts newId data st =
     (case undefined_fields data of
        f # _ \<Rightarrow> (Inl (Failed ''Failed to create document'' (UndefinedValue f)), st)
      | [] \<Rightarrow>
          if \<not> reachable st then (Inl (Failed ''Failed to create document'' Unavailable), st)
          else if map_of (docs st) newId \<noteq> None
            then (Inl (Failed ''Failed to create document'' AlreadyExists), st)
          else (Inr newId, st\<lparr>docs := docs st @ [(newId, data\<lparr>createdAt := ts, updatedAt := ts\<rparr>)]\<rparr>))"

definition findById :: "string \<Rightarrow> 'd collection \<Rightarrow> error + 'd option" where
  "findById i st =
     (if \<not> reachable st then Inl (Failed ''Failed to get document by ID'' Unavailable)
      else Inr (map_of (docs st) i))"

text \<open>
  \<open>update\<close> merges the given fields into the stored document, so the partial document is
  a function on documents; the store rejects the update of a document that does not exist.
\<close>

definition update ::
  "int \<Rightarrow> string \<Rightarrow> ('m FirestoreDocument_scheme \<Rightarrow> 'm FirestoreDocument_scheme)
     \<Rightarrow> ('m FirestoreDocument_scheme) collection
     \<Rightarrow> (error + unit) \<times> ('m FirestoreDocument_scheme) collection" where
  "update ts i data st =
     (if \<not> reachable st then (Inl (Failed ''Failed to update document'' Unavailable), st)
      else if map_of (docs st) i = None
        then (Inl (Failed ''Failed to update document'' NoSuchDocument), st)
      else (Inr (),
            st\<lparr>docs := map (\<lambda>(k, d). if k = i then (k, (data d)\<lparr>updatedAt := ts\<rparr>) else (k, d))
                          (docs st)\<rparr>))"

definition findWhere ::
  "'d engine \<Rightarrow> string \<Rightarrow> WhereFilterOp \<Rightarrow> fsValue \<Rightarrow> (string \<times> OrderByDirection option) option
     \<Rightarrow> int option \<Rightarrow> 'd collection \<Rightarrow> error + 'd list" where
  "findWhere fs field op v ob lmt st =
     (let query = where_clause field op v getCollection;
          query = (case ob of None \<Rightarrow> query
                   | Some (f, d) \<Rightarrow> query\<lparr>orderBy := Some (f, case d of None \<Rightarrow> Asc | Some d' \<Rightarrow> d')\<rparr>);
          query = (if truthy_number lmt then query\<lparr>limitTo := lmt\<rparr> else query)
      in rethrow ''Failed to query documents'' (query_get fs st query))"

definition executeQuery :: "'d engine \<Rightarrow> 'd collection \<Rightarrow> Query \<Rightarrow> error + 'd list" where
  "executeQuery fs st query = rethrow ''Failed to execute custom query'' (query_get fs st query)"

section \<open>Orders\<close>

datatype OrderStatus =
  Draft | Placed | Confirmed | In_preparation | Ready | Served | Closed | Canceled

datatype OrderChannel = Dine_in | Takeaway | Delivery

datatype PaymentMethod = Cash | Card | Pix | Online

record SelectedOption =
  option_id :: string
  option_name :: string
  choice :: string
  price :: int

record OrderItem =
  productId :: string
  name :: string
  qty :: int
  unitPrice :: int
  options :: "SelectedOption list"
  item_notes :: "string option"

record Fees =
  service :: "int property"
  delivery :: "int property"

record Amounts =
  subtotal :: int
  discounts :: int
  fees :: Fees
  total :: int

record Customer =
  customer_name :: "string option"
  phone :: "string option"

record Payment =
  payment_method :: PaymentMethod
  amount :: int
  changeDue :: "int option"

record Order = FirestoreDocument +
  restaurantId :: string
  items :: "OrderItem list"
  channel :: OrderChannel
  tableId :: "string option"
  customer :: "Customer option"
  orderNumber :: int
  status :: OrderStatus
  amounts :: Amounts
  payments :: "Payment list option"
  closedAt :: "int option"
  cancelReason :: "string option"

subsection \<open>OrderRepository.createOrder\<close>

text \<open>
  \<open>order_document\<close> is the object \<open>order\<close> that \<open>createOrder\<close> builds; \<open>rnd\<close> is the
  value of \<open>Math.random()\<close>. The literal \<open>0.1\<close> is the double nearest to one tenth.
\<close>

definition order_document ::
  "string \<Rightarrow> rat \<Rightarrow> OrderItem list \<Rightarrow> OrderChannel \<Rightarrow> string option \<Rightarrow> Customer option \<Rightarrow> Order" where
  "order_document rid rnd its ch tbl cust =
     (let orderNumber = Math_floor (1000 + rnd * 9000);
          subtotal = foldl (\<lambda>sum item.
                        let optionsPrice = foldl (\<lambda>optSum opt. optSum + price opt) 0 (options item)
                        in sum + (unitPrice item + optionsPrice) * qty item) 0 its;
          serviceFee = (if ch = Dine_in then Math_round (double (of_int subtotal * double (1 / 10)))
                        else 0);
          deliveryFee = (if ch = Delivery then 500 else 0);
          total = subtotal + serviceFee + deliveryFee
      in \<lparr>createdAt = 0, updatedAt = 0,
          restaurantId = rid, items = its, channel = ch, tableId = tbl, customer = cust,
          orderNumber = orderNumber, status = Placed,
          amounts = \<lparr>subtotal = subtotal, discounts = 0,
                     fees = \<lparr>service = or_undefined serviceFee,
                              delivery = or_undefined deliveryFee\<rparr>,
                     total = total\<rparr>,
          payments = None, closedAt = None, cancelReason = None\<rparr>)"

text \<open>
  The properties of an order document that hold \<open>undefined\<close>, in the order of the
  object literal. A \<open>tableId\<close> or \<open>customer\<close> that is not given is a property the
  request object does not have, so the spread \<open>...orderData\<close> does not copy it.
\<close>

definition order_undefined :: "Order \<Rightarrow> string list" where
  "order_undefined ord =
     (if service (fees (amounts ord)) = Undefined then [''amounts.fees.service''] else [])
       @ (if delivery (fees (amounts ord)) = Undefined then [''amounts.fees.delivery''] else [])"

text \<open>
  \<open>ts\<close> is the server timestamp and \<open>newId\<close> the id the store assigns. The promise of
  \<open>this.create\<close> is returned without \<open>await\<close>, so its rejection is not rethrown by the
  \<open>catch\<close> of \<open>createOrder\<close>.
\<close>

definition createOrder ::
  "string \<Rightarrow> rat \<Rightarrow> int \<Rightarrow> string \<Rightarrow> OrderItem list \<Rightarrow> OrderChannel \<Rightarrow> string option
     \<Rightarrow> Customer option \<Rightarrow> Order collection \<Rightarrow> (error + string) \<times> Order collection" where
  "createOrder rid rnd ts newId its ch tbl cust st =
     create order_undefined ts newId (order_document rid rnd its ch tbl cust) st"

text \<open>An optional amount read as a number: an absent amount is 0.\<close>

definition or_zero :: "int option \<Rightarrow> int" where
  "or_zero f = (case f of None \<Rightarrow> 0 | Some n \<Rightarrow> n)"

subsection \<open>OrderRepository.updateStatus, cancel and addPayment\<close>

text \<open>\<open>now\<close> is the value of \<open>new Date()\<close>, \<open>ts\<close> the server timestamp.\<close>

definition updateStatus ::
  "int \<Rightarrow> int \<Rightarrow> string \<Rightarrow> OrderStatus \<Rightarrow> Order collection \<Rightarrow> (error + unit) \<times> Order collection" where
  "updateStatus now ts orderId s st =
     (let updates = (\<lambda>d. d\<lparr>status := s\<rparr>);
          updates = (if s = Closed then (\<lambda>d. (updates d)\<lparr>closedAt := Some now\<rparr>) else updates)
      in update ts orderId updates st)"

definition cancel ::
  "int \<Rightarrow> int \<Rightarrow> string \<Rightarrow> string option \<Rightarrow> Order collection \<Rightarrow> (error + unit) \<times> Order collection" where
  "cancel now ts orderId reason st =
     (let updates = (\<lambda>d. d\<lparr>status := Canceled, closedAt := Some now\<rparr>);
          updates = (if truthy_string reason then (\<lambda>d. (updates d)\<lparr>cancelReason := reason\<rparr>)
                     else updates)
      in update ts orderId updates st)"

text \<open>
  \<open>findById\<close> is awaited inside the \<open>try\<close>, so its rejection and the
  \<open>Order not found\<close> error are rethrown by the \<open>catch\<close>; the promise of \<open>update\<close> is
  returned without \<open>await\<close>.
\<close>

definition addPayment ::
  "int \<Rightarrow> string \<Rightarrow> Payment \<Rightarrow> Order collection \<Rightarrow> (error + unit) \<times> Order collection" where
  "addPayment ts orderId payment st =
     (case findById orderId st of
        Inl e \<Rightarrow> (Inl (Failed ''Failed to add payment'' e), st)
      | Inr None \<Rightarrow> (Inl (Failed ''Failed to add payment'' (Error ''Order not found'')), st)
      | Inr (Some order) \<Rightarrow>
          (let payments' = or_empty (payments order) @ [payment]
           in update ts orderId (\<lambda>d. d\<lparr>payments := Some payments'\<rparr>) st))"

subsection \<open>Query input and paginated results\<close>

record PaginationInput =
  page :: int
  limit :: int
  sortBy :: "string option"
  sortOrder :: OrderByDirection

record OrderQueryInput = PaginationInput +
  by_status :: "string option"
  by_channel :: "OrderChannel option"
  by_tableId :: "string option"
  dateFrom :: "int option"
  dateTo :: "int option"

record ProductQueryInput = PaginationInput +
  by_category :: "string option"
  by_available :: "bool option"
  search :: "string option"

text \<open>\<open>totalPages\<close> is \<open>None\<close> when \<open>total / limit\<close> is not a finite number.\<close>

record 'd PageResult =
  page_items :: "'d list"
  page_total :: int
  totalPages :: "int option"
  currentPage :: int

fun channel_string :: "OrderChannel \<Rightarrow> string" where
  "channel_string Dine_in = ''dine_in''"
| "channel_string Takeaway = ''takeaway''"
| "channel_string Delivery = ''delivery''"

text \<open>\<open>if (s) query = query.where(field, '==', s)\<close> for an optional string.\<close>

definition where_string :: "string \<Rightarrow> string option \<Rightarrow> Query \<Rightarrow> Query" where
  "where_string field s query =
     (case s of None \<Rightarrow> query
      | Some v \<Rightarrow> if v \<noteq> [] then where_clause field Eq (VString v) query else query)"

text \<open>\<open>s || d\<close> for an optional string.\<close>

definition or_string :: "string option \<Rightarrow> string \<Rightarrow> string" where
  "or_string s d = (case s of None \<Rightarrow> d | Some v \<Rightarrow> if v \<noteq> [] then v else d)"

subsection \<open>OrderRepository.findWithQuery\<close>

text \<open>The query after the filters and the sorting are applied, before pagination.\<close>

definition order_query :: "OrderQueryInput \<Rightarrow> Query" where
  "order_query queryParams =
     (let query = getCollection;
          query = where_string ''status'' (by_status queryParams) query;
          query = (case by_channel queryParams of None \<Rightarrow> query
                   | Some c \<Rightarrow> where_clause ''channel'' Eq (VString (channel_string c)) query);
          query = where_string ''tableId'' (by_tableId queryParams) query;
          query = (case dateFrom queryParams of None \<Rightarrow> query
                   | Some d \<Rightarrow> where_clause ''createdAt'' Ge (VDate d) query);
          query = (case dateTo queryParams of None \<Rightarrow> query
                   | Some d \<Rightarrow> where_clause ''createdAt'' Le (VDate d) query);
          sortField = or_string (sortBy queryParams) ''createdAt''
      in query\<lparr>orderBy := Some (sortField, sortOrder queryParams)\<rparr>)"

definition OrderRepository_findWithQuery ::
  "Order engine \<Rightarrow> OrderQueryInput \<Rightarrow> Order collection \<Rightarrow> error + Order PageResult" where
  "OrderRepository_findWithQuery fs queryParams st =
     rethrow ''Failed to query orders''
       (let query = order_query queryParams
        in case query_count fs st query of
             Inl e \<Rightarrow> Inl e
           | Inr total' \<Rightarrow>
               (let offset = (page queryParams - 1) * limit queryParams
                in if offset > 0 then
                     (case query_get fs st (query\<lparr>limitTo := Some (offset + limit queryParams)\<rparr>) of
                        Inl e \<Rightarrow> Inl e
                      | Inr allDocs \<Rightarrow>
                          (let orders = drop (nat offset) allDocs;
                               totalPages = map_option Math_ceil (js_divide total' (limit queryParams))
                           in Inr \<lparr>page_items = orders, page_total = total',
                                    totalPages = totalPages, currentPage = page queryParams\<rparr>))
                   else
                     (case query_get fs st (query\<lparr>limitTo := Some (limit queryParams)\<rparr>) of
                        Inl e \<Rightarrow> Inl e
                      | Inr orders \<Rightarrow>
                          (let totalPages = map_option Math_ceil (js_divide total' (limit queryParams))
                           in Inr \<lparr>page_items = orders, page_total = total',
                                    totalPages = totalPages, currentPage = page queryParams\<rparr>))))"

subsection \<open>OrderRepository.getAnalytics\<close>

text \<open>
  A \<open>Record\<close> is an association list of its own keys in their order. \<open>productStats\<close> is
  a plain object \<open>{}\<close>: for a key that names a member inherited from \<open>Object.prototype\<close>
  the read \<open>productStats[key]\<close> gives that member, which is truthy, so no entry is
  initialised and the two \<open>+=\<close> write to the inherited member; such a key never becomes
  an own key of \<open>productStats\<close>. \<open>Object.entries\<close> lists the own keys that are array
  indices first, in ascending numeric order, then the other keys in insertion order.
\<close>

definition Object_prototype_names :: "string list" where
  "Object_prototype_names =
     [''constructor'', ''__defineGetter__'', ''__defineSetter__'', ''hasOwnProperty'',
      ''__lookupGetter__'', ''__lookupSetter__'', ''isPrototypeOf'', ''propertyIsEnumerable'',
      ''toString'', ''valueOf'', ''__proto__'', ''toLocaleString'']"

record ProductStat =
  stat_name :: string
  quantity :: int
  revenue :: int

record Analytics =
  totalOrders :: int
  totalRevenue :: int
  averageOrderValue :: "rat option"
  ordersByStatus :: "(OrderStatus \<times> int) list"
  ordersByChannel :: "(OrderChannel \<times> int) list"
  topProducts :: "(string \<times> ProductStat) list"

definition increment :: "'k \<Rightarrow> ('k \<times> int) list \<Rightarrow> ('k \<times> int) list" where
  "increment k m = map (\<lambda>(k', n). if k' = k then (k', n + 1) else (k', n)) m"

definition add_item :: "(string \<times> ProductStat) list \<Rightarrow> OrderItem \<Rightarrow> (string \<times> ProductStat) list" where
  "add_item productStats item =
     (if productId item \<in> set Object_prototype_names then productStats
      else
        (let productStats =
               (if map_of productStats (productId item) = None
                then productStats @ [(productId item, \<lparr>stat_name = name item, quantity = 0, revenue = 0\<rparr>)]
                else productStats)
         in map (\<lambda>(k, s). if k = productId item
                            then (k, s\<lparr>quantity := quantity s + qty item,
                                      revenue := revenue s + unitPrice item * qty item\<rparr>)
                            else (k, s)) productStats))"

definition count_order ::
  "(OrderStatus \<times> int) list \<times> (OrderChannel \<times> int) list \<times> (string \<times> ProductStat) list \<Rightarrow> Order
     \<Rightarrow> (OrderStatus \<times> int) list \<times> (OrderChannel \<times> int) list \<times> (string \<times> ProductStat) list" where
  "count_order acc order =
     (case acc of (byStatus, byChannel, productStats) \<Rightarrow>
        (increment (status order) byStatus,
         increment (channel order) byChannel,
         foldl add_item productStats (items order)))"

definition is_digit :: "char \<Rightarrow> bool" where
  "is_digit c = (48 \<le> (of_char c :: nat) \<and> (of_char c :: nat) \<le> 57)"

definition decimal :: "string \<Rightarrow> nat" where
  "decimal s = foldl (\<lambda>n c. 10 * n + ((of_char c :: nat) - 48)) 0 s"

definition is_array_index :: "string \<Rightarrow> bool" where
  "is_array_index s =
     (s \<noteq> [] \<and> list_all is_digit s \<and> (s = ''0'' \<or> take 1 s \<noteq> ''0'') \<and> decimal s < 4294967295)"

definition Object_entries :: "(string \<times> 'v) list \<Rightarrow> (string \<times> 'v) list" where
  "Object_entries obj =
     sort_key (\<lambda>e. decimal (fst e)) (filter (\<lambda>e. is_array_index (fst e)) obj)
       @ filter (\<lambda>e. \<not> is_array_index (fst e)) obj"

text \<open>The query of \<open>getAnalytics\<close>: the optional date range, no ordering, no limit.\<close>

definition analytics_query :: "int option \<Rightarrow> int option \<Rightarrow> Query" where
  "analytics_query startDate endDate =
     (let query = getCollection;
          query = (case startDate of None \<Rightarrow> query
                   | Some d \<Rightarrow> where_clause ''createdAt'' Ge (VDate d) query);
          query = (case endDate of None \<Rightarrow> query
                   | Some d \<Rightarrow> where_clause ''createdAt'' Le (VDate d) query)
      in query)"

definition getAnalytics ::
  "Order engine \<Rightarrow> int option \<Rightarrow> int option \<Rightarrow> Order collection \<Rightarrow> error + Analytics" where
  "getAnalytics fs startDate endDate st =
     rethrow ''Failed to get order analytics''
       (let query = analytics_query startDate endDate
        in case executeQuery fs st query of
             Inl e \<Rightarrow> Inl e
           | Inr orders \<Rightarrow>
               (let totalOrders = int (length orders);
                    totalRevenue = foldl (\<lambda>sum order. sum + total (amounts order)) 0 orders;
                    averageOrderValue =
                      (if totalOrders > 0 then js_divide totalRevenue totalOrders else Some 0);
                    ordersByStatus =
                      [(Draft, 0), (Placed, 0), (Confirmed, 0), (In_preparation, 0), (Ready, 0),
                       (Served, 0), (Closed, 0), (Canceled, 0)];
                    ordersByChannel = [(Dine_in, 0), (Takeaway, 0), (Delivery, 0)];
                    productStats = [];
                    acc = foldl count_order (ordersByStatus, ordersByChannel, productStats) orders;
                    topProducts =
                      take 10 (sort_key (\<lambda>e. - revenue (snd e)) (Object_entries (snd (snd acc))))
                in Inr \<lparr>totalOrders = totalOrders, totalRevenue = totalRevenue,
                         averageOrderValue = averageOrderValue,
                         ordersByStatus = fst acc, ordersByChannel = fst (snd acc),
                         topProducts = topProducts\<rparr>))"

section \<open>Products\<close>

record Product = FirestoreDocument +
  product_name :: string
  description :: string
  category :: string
  product_price :: int
  available :: bool
  position :: int

subsection \<open>ProductRepository.findWithQuery\<close>

definition product_query :: "ProductQueryInput \<Rightarrow> Query" where
  "product_query queryParams =
     (let query = getCollection;
          query = where_string ''category'' (by_category queryParams) query;
          query = (case by_available queryParams of None \<Rightarrow> query
                   | Some b \<Rightarrow> where_clause ''available'' Eq (VBool b) query);
          sortField = or_string (sortBy queryParams) ''position''
      in query\<lparr>orderBy := Some (sortField, sortOrder queryParams)\<rparr>)"

text \<open>The in-memory search filter; an absent or empty term leaves the page as it is.\<close>

definition search_filter :: "string option \<Rightarrow> Product list \<Rightarrow> Product list" where
  "search_filter term products =
     (case term of None \<Rightarrow> products
      | Some t \<Rightarrow>
          if t \<noteq> [] then
            (let searchLower = toLowerCase t
             in filter (\<lambda>product. str_includes (toLowerCase (product_name product)) searchLower
                                 \<or> str_includes (toLowerCase (description product)) searchLower)
                  products)
          else products)"

definition ProductRepository_findWithQuery ::
  "Product engine \<Rightarrow> ProductQueryInput \<Rightarrow> Product collection \<Rightarrow> error + Product PageResult" where
  "ProductRepository_findWithQuery fs queryParams st =
     rethrow ''Failed to query products''
       (let query = product_query queryParams
        in case query_count fs st query of
             Inl e \<Rightarrow> Inl e
           | Inr total' \<Rightarrow>
               (let offset = (page queryParams - 1) * limit queryParams
                in if offset > 0 then
                     (case query_get fs st (query\<lparr>limitTo := Some (offset + limit queryParams)\<rparr>) of
                        Inl e \<Rightarrow> Inl e
                      | Inr allDocs \<Rightarrow>
                          (let products = drop (nat offset) allDocs;
                               totalPages = map_option Math_ceil (js_divide total' (limit queryParams));
                               filteredProducts = search_filter (search queryParams) products
                           in Inr \<lparr>page_items = filteredProducts, page_total = total',
                                    totalPages = totalPages, currentPage = page queryParams\<rparr>))
                   else
                     (case query_get fs st (query\<lparr>limitTo := Some (limit queryParams)\<rparr>) of
                        Inl e \<Rightarrow> Inl e
                      | Inr products \<Rightarrow>
                          (let products = search_filter (search queryParams) products;
                               totalPages = map_option Math_ceil (js_divide total' (limit queryParams))
                           in Inr \<lparr>page_items = products, page_total = total',
                                    totalPages = totalPages, currentPage = page queryParams\<rparr>))))"

section \<open>Coupons\<close>

datatype CouponType = Percent | Fixed

text \<open>
  What a date field of a coupon holds when it is compared: a JavaScript \<open>Date\<close> (the
  demo data of the cart; milliseconds since the epoch), a store \<open>Timestamp\<close> (what a
  stored date reads back as: \<open>transformDocument\<close> converts only \<open>createdAt\<close> and
  \<open>updatedAt\<close>; seconds since the epoch and nanoseconds), or an ISO date-time string (the
  request schema accepts one and stores it as it is).

  \<open>date_number\<close> is the number the relational operators compare: the time value of a
  \<open>Date\<close>; for a \<open>Timestamp\<close> the number read from the string of its \<open>valueOf\<close>, which
  is the seconds shifted by 62135596800 (so that they are not negative), a dot and the
  nanoseconds, that is the double nearest to that decimal; for an ISO string \<open>NaN\<close>,
  here \<open>None\<close>. A comparison with \<open>NaN\<close> is false.
\<close>

datatype DateValue = JsDate int | Timestamp int int | IsoString string

fun date_number :: "DateValue \<Rightarrow> rat option" where
  "date_number (JsDate ms) = Some (of_int ms)"
| "date_number (Timestamp seconds nanoseconds) =
     Some (double (of_int (seconds + 62135596800) + of_int nanoseconds / 1000000000))"
| "date_number (IsoString s) = None"

definition js_less :: "rat option \<Rightarrow> rat option \<Rightarrow> bool" where
  "js_less a b = (case (a, b) of (Some x, Some y) \<Rightarrow> x < y | _ \<Rightarrow> False)"

definition js_less_eq :: "rat option \<Rightarrow> rat option \<Rightarrow> bool" where
  "js_less_eq a b = (case (a, b) of (Some x, Some y) \<Rightarrow> x \<le> y | _ \<Rightarrow> False)"

record Coupon =
  code :: string
  coupon_type :: CouponType
  coupon_value :: int
  validFrom :: DateValue
  validTo :: DateValue
  minSubtotal :: "int option"
  active :: bool

text \<open>\<open>coupon.minSubtotal && subtotal < coupon.minSubtotal\<close>\<close>

definition below_minimum :: "int option \<Rightarrow> int \<Rightarrow> bool" where
  "below_minimum m sub = (case m of None \<Rightarrow> False | Some k \<Rightarrow> k \<noteq> 0 \<and> sub < k)"

subsection \<open>CouponRepository.findByCode and validateCoupon\<close>

text \<open>
  The messages of the \<open>error\<close> field; the minimum is \<open>minSubtotal / 100\<close>. \<open>now\<close> is
  the time value of \<open>new Date()\<close>; \<open>now > validTo\<close> is \<open>validTo < now\<close>.
\<close>

datatype CouponMessage =
    Coupon_not_found
  | Coupon_is_not_active
  | Coupon_is_not_yet_valid
  | Coupon_has_expired
  | Minimum_order_value_required rat
  | Error_validating_coupon

record CouponValidation =
  valid :: bool
  coupon :: "Coupon option"
  message :: "CouponMessage option"

definition findByCode :: "Coupon engine \<Rightarrow> string \<Rightarrow> Coupon collection \<Rightarrow> error + Coupon option" where
  "findByCode fs c st =
     (case findWhere fs ''code'' Eq (VString (toUpperCase c)) None None st of
        Inl e \<Rightarrow> Inl e
      | Inr coupons \<Rightarrow> Inr (case coupons of [] \<Rightarrow> None | x # _ \<Rightarrow> Some x))"

definition validateCoupon ::
  "Coupon engine \<Rightarrow> int \<Rightarrow> string \<Rightarrow> int \<Rightarrow> Coupon collection \<Rightarrow> CouponValidation" where
  "validateCoupon fs now c sub st =
     (case findByCode fs c st of
        Inl e \<Rightarrow> \<lparr>valid = False, coupon = None, message = Some Error_validating_coupon\<rparr>
      | Inr None \<Rightarrow> \<lparr>valid = False, coupon = None, message = Some Coupon_not_found\<rparr>
      | Inr (Some cp) \<Rightarrow>
          if \<not> active cp then
            \<lparr>valid = False, coupon = None, message = Some Coupon_is_not_active\<rparr>
          else if js_less (Some (of_int now)) (date_number (validFrom cp)) then
            \<lparr>valid = False, coupon = None, message = Some Coupon_is_not_yet_valid\<rparr>
          else if js_less (date_number (validTo cp)) (Some (of_int now)) then
            \<lparr>valid = False, coupon = None, message = Some Coupon_has_expired\<rparr>
          else if below_minimum (minSubtotal cp) sub then
            \<lparr>valid = False, coupon = None,
             message = Some (Minimum_order_value_required (of_int (or_zero (minSubtotal cp)) / 100))\<rparr>
          else \<lparr>valid = True, coupon = Some cp, message = None\<rparr>)"

subsection \<open>The cart: getCoupon of the mock service and handleApplyCoupon\<close>

definition demoCoupons :: "Coupon list" where
  "demoCoupons =
     [\<lparr>code = ''BEMVINDO10'', coupon_type = Percent, coupon_value = 10,
        validFrom = JsDate 1704067200000, validTo = JsDate 1735603200000, minSubtotal = Some 2000, active = True\<rparr>,
      \<lparr>code = ''DESCONTO5'', coupon_type = Fixed, coupon_value = 500,
        validFrom = JsDate 1704067200000, validTo = JsDate 1735603200000, minSubtotal = None, active = True\<rparr>,
      \<lparr>code = ''FRETE0'', coupon_type = Fixed, coupon_value = 590,
        validFrom = JsDate 1704067200000, validTo = JsDate 1735603200000, minSubtotal = Some 5000, active = True\<rparr>]"

definition getCoupon :: "Coupon list \<Rightarrow> int \<Rightarrow> string \<Rightarrow> Coupon option" where
  "getCoupon coupons now c =
     find (\<lambda>x. code x = toUpperCase c \<and> active x
                \<and> js_less_eq (date_number (validFrom x)) (Some (of_int now))
                \<and> js_less_eq (Some (of_int now)) (date_number (validTo x))) coupons"

text \<open>
  What \<open>handleApplyCoupon\<close> does: nothing on a blank input, one of the two error toasts,
  or \<open>applyCoupon(code, discount)\<close>.
\<close>

datatype ApplyOutcome =
    Nothing
  | Toast_invalid
  | Toast_minimum int
  | ApplyCoupon string int

definition handleApplyCoupon :: "Coupon list \<Rightarrow> int \<Rightarrow> string \<Rightarrow> int \<Rightarrow> ApplyOutcome" where
  "handleApplyCoupon coupons now couponInput sub =
     (if trim couponInput = [] then Nothing
      else case getCoupon coupons now (toUpperCase couponInput) of
             None \<Rightarrow> Toast_invalid
           | Some cp \<Rightarrow>
               if below_minimum (minSubtotal cp) sub
               then Toast_minimum (or_zero (minSubtotal cp))
               else
                 (let discount =
                        (if coupon_type cp = Percent
                         then Math_round (double (of_int sub * double (of_int (coupon_value cp) / 100)))
                         else coupon_value cp)
                  in ApplyCoupon (toUpperCase couponInput) discount))"

section \<open>Sample data\<close>

text \<open>A closed dine-in order and a store holding it, for concrete evaluations.\<close>

definition sample_order :: Order where
  "sample_order =
     \<lparr>createdAt = 50, updatedAt = 100,
      restaurantId = ''demo-restaurant'',
      items = [\<lparr>productId = ''prod-01'', name = ''Pizza'', qty = 1, unitPrice = 2890,
                 options = [\<lparr>option_id = ''opt-1'', option_name = ''Borda'', choice = ''Catupiry'',
                             price = 590\<rparr>],
                 item_notes = None\<rparr>],
      channel = Dine_in, tableId = Some ''01'', customer = None,
      orderNumber = 4321, status = Closed,
      amounts = \<lparr>subtotal = 3480, discounts = 0,
                 fees = \<lparr>service = Value 348, delivery = Missing\<rparr>, total = 3828\<rparr>,
      payments = None, closedAt = Some 100, cancelReason = None\<rparr>"

definition sample_store :: "Order collection" where
  "sample_store = \<lparr>docs = [(''order-1'', sample_order)], reachable = True\<rparr>"

text \<open>
  A stored coupon collection (dates read back as timestamps): a coupon for 2024 with a
  minimum, a coupon for 2023 that is inactive, and a coupon whose dates were stored as ISO
  strings; the same collection when the store does not answer; and a sample evaluation of
  the equality filter on the \<open>code\<close> field.
\<close>

definition sample_coupons :: "Coupon collection" where
  "sample_coupons =
     \<lparr>docs = [(''coupon-01'',
                \<lparr>code = ''BEMVINDO10'', coupon_type = Percent, coupon_value = 10,
                 validFrom = Timestamp 1704067200 0, validTo = Timestamp 1735603200 0,
                 minSubtotal = Some 2000, active = True\<rparr>),
               (''coupon-04'',
                \<lparr>code = ''VERAO23'', coupon_type = Percent, coupon_value = 15,
                 validFrom = Timestamp 1672531200 0, validTo = Timestamp 1703980800 0,
                 minSubtotal = None, active = False\<rparr>),
               (''coupon-05'',
                \<lparr>code = ''NATAL'', coupon_type = Fixed, coupon_value = 500,
                 validFrom = IsoString ''2024-12-01T00:00:00Z'',
                 validTo = IsoString ''2024-12-31T00:00:00Z'',
                 minSubtotal = Some 2000, active = True\<rparr>)],
      reachable = True\<rparr>"

definition unreachable_coupons :: "Coupon collection" where
  "unreachable_coupons = sample_coupons\<lparr>reachable := False\<rparr>"

text \<open>A cart coupon of 29 percent.\<close>

definition percent_coupons :: "Coupon list" where
  "percent_coupons =
     [\<lparr>code = ''PROMO29'', coupon_type = Percent, coupon_value = 29,
        validFrom = JsDate 1704067200000, validTo = JsDate 1735603200000, minSubtotal = None,
        active = True\<rparr>]"

definition code_engine :: "Coupon engine" where
  "code_engine ws ob ds =
     filter (\<lambda>c. list_all (\<lambda>(f, op, v). if f = ''code'' \<and> op = Eq then v = VString (code c) else True) ws)
       (map snd ds)"

text \<open>
  A store of \<open>n\<close> orders numbered from 1 in insertion order, the query for page 3 with
  20 orders per page, and a sample engine that answers every query with all documents in
  insertion order.
\<close>

definition numbered_orders :: "nat \<Rightarrow> Order collection" where
  "numbered_orders n =
     \<lparr>docs = map (\<lambda>k. (''order-'' @ replicate k CHR ''I'', sample_order\<lparr>orderNumber := int k\<rparr>))
               [1..<Suc n],
      reachable = True\<rparr>"

definition third_page :: OrderQueryInput where
  "third_page =
     \<lparr>page = 3, limit = 20, sortBy = None, sortOrder = Desc,
      by_status = None, by_channel = None, by_tableId = None, dateFrom = None, dateTo = None\<rparr>"

definition all_engine :: "'d engine" where
  "all_engine ws ob ds = map snd ds"

text \<open>
  Two products, the query for the second page of one product, and the query for the first
  page of one product with the search term SUCO.
\<close>

definition sample_products :: "Product collection" where
  "sample_products =
     \<lparr>docs = [(''prod-01'', \<lparr>createdAt = 1, updatedAt = 1, product_name = ''Pizza Margherita'',
                              description = ''Molho de tomate e manjericao'', category = ''Pizzas'',
                              product_price = 2890, available = True, position = 1\<rparr>),
               (''prod-02'', \<lparr>createdAt = 2, updatedAt = 2, product_name = ''Suco de Laranja'',
                              description = ''Natural'', category = ''Bebidas'',
                              product_price = 890, available = True, position = 2\<rparr>)],
      reachable = True\<rparr>"

definition second_product :: ProductQueryInput where
  "second_product =
     \<lparr>page = 2, limit = 1, sortBy = None, sortOrder = Asc,
      by_category = None, by_available = None, search = None\<rparr>"

definition search_suco :: ProductQueryInput where
  "search_suco =
     \<lparr>page = 1, limit = 1, sortBy = None, sortOrder = Asc,
      by_category = None, by_available = None, search = Some ''SUCO''\<rparr>"

text \<open>A second order (takeaway, placed) and a store holding both sample orders.\<close>

definition takeaway_order :: Order where
  "takeaway_order =
     \<lparr>createdAt = 60, updatedAt = 60,
      restaurantId = ''demo-restaurant'',
      items = [\<lparr>productId = ''prod-02'', name = ''Suco de Laranja'', qty = 2, unitPrice = 890,
                 options = [], item_notes = None\<rparr>,
               \<lparr>productId = ''prod-01'', name = ''Pizza'', qty = 1, unitPrice = 2890,
                 options = [], item_notes = None\<rparr>],
      channel = Takeaway, tableId = None, customer = None,
      orderNumber = 4322, status = Placed,
      amounts = \<lparr>subtotal = 4670, discounts = 0,
                 fees = \<lparr>service = Missing, delivery = Missing\<rparr>, total = 4670\<rparr>,
      payments = None, closedAt = None, cancelReason = None\<rparr>"

definition two_orders :: "Order collection" where
  "two_orders =
     \<lparr>docs = [(''order-1'', sample_order), (''order-2'', takeaway_order)], reachable = True\<rparr>"

definition no_orders :: "Order collection" where
  "no_orders = \<lparr>docs = [], reachable = True\<rparr>"

text \<open>
  An order with an item whose productId is \<open>constructor\<close>, in a store with the closed
  sample order; and an order that already has one payment.
\<close>

definition constructor_order :: Order where
  "constructor_order =
     takeaway_order
       \<lparr>items := [\<lparr>productId = ''constructor'', name = ''Combo'', qty = 3, unitPrice = 1000,
                     options = [], item_notes = None\<rparr>,
                   \<lparr>productId = ''prod-02'', name = ''Suco de Laranja'', qty = 2, unitPrice = 890,
                     options = [], item_notes = None\<rparr>]\<rparr>"

definition constructor_orders :: "Order collection" where
  "constructor_orders =
     \<lparr>docs = [(''order-1'', sample_order), (''order-3'', constructor_order)], reachable = True\<rparr>"

definition paid_order :: Order where
  "paid_order =
     sample_order\<lparr>payments := Some [\<lparr>payment_method = Cash, amount = 2000, changeDue = None\<rparr>]\<rparr>"

definition paid_store :: "Order collection" where
  "paid_store = \<lparr>docs = [(''order-1'', paid_order)], reachable = True\<rparr>"

section \<open>Verified properties\<close>

subsection \<open>Double-precision arithmetic\<close>

lemma round_to_even_error: "\<bar>of_int (round_to_even r) - r\<bar> \<le> 1 / 2"
proof -
  define f where "f = \<lfloor>r\<rfloor>"
  have "of_int f \<le> r" "r < of_int f + 1" unfolding f_def by linarith+
  then show ?thesis
    unfolding round_to_even_def Let_def f_def [symmetric] by (auto simp: abs_if)
qed

lemma binary_exponent_le:
  assumes "0 < x"
  shows "power_int 2 (binary_exponent x) \<le> x"
proof -
  obtain p q where pq: "quotient_of x = (p, q)" by (cases "quotient_of x")
  then have q: "0 < q" and x: "x = of_int p / of_int q"
    by (simp_all add: quotient_of_denom_pos quotient_of_div)
  with assms have p: "0 < p" by (simp add: zero_less_divide_iff)
  let ?k = "bitlen p - bitlen q"
  have bp: "(2::int) ^ nat (bitlen p - 1) \<le> p" and bq: "q < 2 ^ nat (bitlen q)"
    using bitlen_bounds [OF p] bitlen_bounds [OF q] by simp_all
  have p1: "1 \<le> bitlen p" using p by (simp add: bitlen_alt_def)
  have "power_int (2::rat) (?k - 1) = power_int 2 (bitlen p - 1) / power_int 2 (bitlen q)"
    using power_int_diff [of "2::rat" "bitlen p - 1" "bitlen q"] by (simp add: algebra_simps)
  also have "power_int (2::rat) (bitlen p - 1) = 2 ^ nat (bitlen p - 1)"
    using p1 by (simp add: power_int_def)
  also have "power_int (2::rat) (bitlen q) = 2 ^ nat (bitlen q)"
    using bitlen_nonneg [of q] by (simp add: power_int_def)
  finally have e: "power_int (2::rat) (?k - 1) = 2 ^ nat (bitlen p - 1) / 2 ^ nat (bitlen q)" .
  have n: "(2::rat) ^ nat (bitlen p - 1) \<le> of_int p"
    using bp by (metis of_int_le_iff of_int_numeral of_int_power)
  have d: "(of_int q :: rat) \<le> 2 ^ nat (bitlen q)"
    using bq by (metis less_imp_le of_int_le_iff of_int_numeral of_int_power)
  have "(2::rat) ^ nat (bitlen p - 1) / 2 ^ nat (bitlen q) \<le> of_int p / of_int q"
    using n d p q by (intro frac_le) simp_all
  then have low: "power_int 2 (?k - 1) \<le> x" using e x by simp
  show ?thesis
    using low pq by (simp add: binary_exponent_def Let_def)
qed

text \<open>The relative error of rounding to a double is at most \<open>2 ^ -53\<close>.\<close>

lemma double_error: "\<bar>double x - x\<bar> \<le> \<bar>x\<bar> / 2 ^ 53"
proof (cases "x = 0")
  case True
  then show ?thesis by (simp add: double_def)
next
  case False
  let ?e = "binary_exponent \<bar>x\<bar>"
  let ?u = "power_int (2::rat) (?e - 52)"
  have u: "0 < ?u" by simp
  have "double x - x = (of_int (round_to_even (x / ?u)) - x / ?u) * ?u"
    using False u by (simp add: double_def Let_def algebra_simps)
  then have "\<bar>double x - x\<bar> = \<bar>of_int (round_to_even (x / ?u)) - x / ?u\<bar> * ?u"
    using u by (simp add: abs_mult)
  also have "\<dots> \<le> 1 / 2 * ?u"
    using round_to_even_error [of "x / ?u"] u by (intro mult_right_mono) simp_all
  also have "?u = power_int 2 ?e / 2 ^ 52"
    using power_int_diff [of "2::rat" ?e 52] by simp
  also have "1 / 2 * (power_int 2 ?e / 2 ^ 52) = power_int (2::rat) ?e / 2 ^ 53" by simp
  also have "\<dots> \<le> \<bar>x\<bar> / 2 ^ 53"
    using binary_exponent_le [of "\<bar>x\<bar>"] False by (intro divide_right_mono) simp_all
  finally show ?thesis .
qed

subsection \<open>Order amounts\<close>

lemma foldl_options: "foldl (\<lambda>optSum opt. optSum + price opt) a os = a + sum_list (map price os)"
  by (induction os arbitrary: a) auto

lemma foldl_items:
  "foldl (\<lambda>sum item. sum + (unitPrice item + foldl (\<lambda>optSum opt. optSum + price opt) 0 (options item)) * qty item) a its
   = a + (\<Sum>item\<leftarrow>its. qty item * (unitPrice item + (\<Sum>opt\<leftarrow>options item. price opt)))"
  by (induction its arbitrary: a) (auto simp: foldl_options algebra_simps)

lemma order_document_amounts:
  "amounts (order_document rid rnd its ch tbl cust) =
     \<lparr>subtotal = (\<Sum>item\<leftarrow>its. qty item * (unitPrice item + (\<Sum>opt\<leftarrow>options item. price opt))),
      discounts = 0,
      fees = \<lparr>service =
                 (if ch = Dine_in
                  then or_undefined (Math_round (double (of_int
                         (\<Sum>item\<leftarrow>its. qty item * (unitPrice item + (\<Sum>opt\<leftarrow>options item. price opt)))
                         * double (1 / 10))))
                  else Undefined),
               delivery = (if ch = Delivery then Value 500 else Undefined)\<rparr>,
      total = (\<Sum>item\<leftarrow>its. qty item * (unitPrice item + (\<Sum>opt\<leftarrow>options item. price opt)))
        + (if ch = Dine_in
           then Math_round (double (of_int
                  (\<Sum>item\<leftarrow>its. qty item * (unitPrice item + (\<Sum>opt\<leftarrow>options item. price opt)))
                  * double (1 / 10)))
           else 0)
        + (if ch = Delivery then 500 else 0)\<rparr>"
  by (simp add: order_document_def Let_def foldl_items or_undefined_def)

text \<open>
  C1. \<open>createOrder\<close> computes the amounts of the order document as: subtotal the sum
  over the items of qty times (unitPrice plus the sum of the option prices); a service fee
  of round(subtotal * 0.10), in double precision, for dine_in; a flat delivery fee of 500
  for delivery; discounts 0. A fee that is 0 is not left out of the document: its property
  is written with the value \<open>undefined\<close>. Since no channel has both fees, every document
  holds at least one such property, the store refuses it, and \<open>createOrder\<close> fails with
  "Failed to create document" for every item list and channel, leaving the store as it was.
\<close>

theorem createOrder_rejected:
  "createOrder rid rnd ts newId its ch tbl cust st
     = (Inl (Failed ''Failed to create document''
              (UndefinedValue
                 (if service (fees (amounts (order_document rid rnd its ch tbl cust))) = Undefined
                  then ''amounts.fees.service'' else ''amounts.fees.delivery''))), st)
   \<and> (service (fees (amounts (order_document rid rnd its ch tbl cust))) = Undefined
        \<or> delivery (fees (amounts (order_document rid rnd its ch tbl cust))) = Undefined)
   \<and> subtotal (amounts (order_document rid rnd its ch tbl cust))
        = (\<Sum>item\<leftarrow>its. qty item * (unitPrice item + (\<Sum>opt\<leftarrow>options item. price opt)))
   \<and> service (fees (amounts (order_document rid rnd its ch tbl cust)))
        = (if ch = Dine_in
           then or_undefined (Math_round (double (of_int
                  (subtotal (amounts (order_document rid rnd its ch tbl cust))) * double (1 / 10))))
           else Undefined)
   \<and> delivery (fees (amounts (order_document rid rnd its ch tbl cust)))
        = (if ch = Delivery then Value 500 else Undefined)
   \<and> discounts (amounts (order_document rid rnd its ch tbl cust)) = 0"
proof -
  let ?a = "amounts (order_document rid rnd its ch tbl cust)"
  have u: "service (fees ?a) = Undefined \<or> delivery (fees ?a) = Undefined"
    unfolding order_document_amounts by (cases ch) simp_all
  have "createOrder rid rnd ts newId its ch tbl cust st
     = (Inl (Failed ''Failed to create document''
              (UndefinedValue
                 (if service (fees ?a) = Undefined
                  then ''amounts.fees.service'' else ''amounts.fees.delivery''))), st)"
    using u by (auto simp add: createOrder_def create_def order_undefined_def)
  then show ?thesis
    using u unfolding order_document_amounts by simp
qed

lemma spec_example_document:
  "amounts (order_document ''demo-restaurant'' (1 / 2)
      [\<lparr>productId = ''prod-01'', name = ''Pizza'', qty = 1, unitPrice = 2890,
        options = [\<lparr>option_id = ''opt-1'', option_name = ''Borda'', choice = ''Catupiry'',
                    price = 590\<rparr>],
        item_notes = None\<rparr>] Dine_in (Some ''01'') None)
     = \<lparr>subtotal = 3480, discounts = 0, fees = \<lparr>service = Value 348, delivery = Undefined\<rparr>,
        total = 3828\<rparr>"
  by code_simp

theorem createOrder_rejected_witness:
  "createOrder ''demo-restaurant'' (1 / 2) 1000 ''order-9''
      [\<lparr>productId = ''prod-01'', name = ''Pizza'', qty = 1, unitPrice = 2890,
        options = [\<lparr>option_id = ''opt-1'', option_name = ''Borda'', choice = ''Catupiry'',
                    price = 590\<rparr>],
        item_notes = None\<rparr>] Dine_in (Some ''01'') None no_orders
     = (Inl (Failed ''Failed to create document'' (UndefinedValue ''amounts.fees.delivery'')),
        no_orders)
   \<and> amounts (order_document ''demo-restaurant'' (1 / 2)
      [\<lparr>productId = ''prod-01'', name = ''Pizza'', qty = 1, unitPrice = 2890,
        options = [\<lparr>option_id = ''opt-1'', option_name = ''Borda'', choice = ''Catupiry'',
                    price = 590\<rparr>],
        item_notes = None\<rparr>] Dine_in (Some ''01'') None)
     = \<lparr>subtotal = 3480, discounts = 0, fees = \<lparr>service = Value 348, delivery = Undefined\<rparr>,
        total = 3828\<rparr>"
  using createOrder_rejected [of "''demo-restaurant''" "1 / 2" 1000 "''order-9''"
      "[\<lparr>productId = ''prod-01'', name = ''Pizza'', qty = 1, unitPrice = 2890,
        options = [\<lparr>option_id = ''opt-1'', option_name = ''Borda'', choice = ''Catupiry'',
                    price = 590\<rparr>],
        item_notes = None\<rparr>]" Dine_in "Some ''01''" None no_orders]
  by (simp add: spec_example_document)

subsection \<open>Status changes and payments\<close>

lemma map_of_map_entry:
  "map_of (map (\<lambda>(k, d). if k = i then (k, g d) else (k, d)) xs) j
     = (if j = i then map_option g (map_of xs i) else map_of xs j)"
  by (induction xs) auto

lemma update_stored:
  assumes "reachable st" and "map_of (docs st) i = Some d"
  shows "fst (update ts i f st) = Inr ()"
    and "map_of (docs (snd (update ts i f st))) j
           = (if j = i then Some ((f d)\<lparr>updatedAt := ts\<rparr>) else map_of (docs st) j)"
    and "reachable (snd (update ts i f st))"
  using assms by (simp_all add: update_def map_of_map_entry)

lemma sample_store_facts:
  "reachable sample_store" "map_of (docs sample_store) ''order-1'' = Some sample_order"
  "map_of (docs sample_store) ''order-2'' = None"
  by (simp_all add: sample_store_def)

text \<open>
  C2 (as amended). On a stored order, \<open>updateStatus\<close> with status closed and \<open>cancel\<close>
  both succeed and store the terminal status together with closedAt = the time of the call,
  whatever closedAt held before; re-applying a terminal status therefore replaces closedAt.
\<close>

theorem terminal_call_sets_closedAt:
  assumes "reachable st" and "map_of (docs st) orderId = Some ord"
  shows "fst (updateStatus now ts orderId Closed st) = Inr ()
     \<and> map_option status (map_of (docs (snd (updateStatus now ts orderId Closed st))) orderId) = Some Closed
     \<and> map_option closedAt (map_of (docs (snd (updateStatus now ts orderId Closed st))) orderId) = Some (Some now)
     \<and> fst (cancel now ts orderId reason st) = Inr ()
     \<and> map_option status (map_of (docs (snd (cancel now ts orderId reason st))) orderId) = Some Canceled
     \<and> map_option closedAt (map_of (docs (snd (cancel now ts orderId reason st))) orderId) = Some (Some now)"
  using update_stored [OF assms] by (simp add: updateStatus_def cancel_def Let_def)

theorem terminal_call_sets_closedAt_witness:
  "reachable sample_store \<and> map_of (docs sample_store) ''order-1'' = Some sample_order
   \<and> map_option closedAt (map_of (docs (snd (updateStatus 200 201 ''order-1'' Closed sample_store))) ''order-1'')
       = Some (Some 200)
   \<and> map_option closedAt (map_of (docs (snd (cancel 300 301 ''order-1'' None sample_store))) ''order-1'')
       = Some (Some 300)"
  using terminal_call_sets_closedAt [OF sample_store_facts(1,2), of 200 201]
    terminal_call_sets_closedAt [OF sample_store_facts(1,2), of 300 301 None]
  by (simp add: sample_store_facts)

text \<open>
  The claim as stated fails: the sample order is closed with closedAt = 100; closing it
  again at time 200 leaves it closed and changes the stored closedAt.
\<close>

theorem closedAt_overwritten_counterexample:
  "map_option status (map_of (docs sample_store) ''order-1'') = Some Closed
   \<and> map_option closedAt (map_of (docs sample_store) ''order-1'') = Some (Some 100)
   \<and> map_option status
        (map_of (docs (snd (updateStatus 200 201 ''order-1'' Closed sample_store))) ''order-1'') = Some Closed
   \<and> map_option closedAt
        (map_of (docs (snd (updateStatus 200 201 ''order-1'' Closed sample_store))) ''order-1'')
       \<noteq> map_option closedAt (map_of (docs sample_store) ''order-1'')"
  by (simp add: updateStatus_def update_def sample_store_def sample_order_def Let_def)

text \<open>
  \<open>updateStatus\<close> with status canceled stores the status and leaves closedAt as it was;
  among the two ways to cancel an order only \<open>cancel\<close> writes closedAt.
\<close>

lemma updateStatus_canceled_closedAt:
  assumes "reachable st" and "map_of (docs st) orderId = Some ord"
  shows "map_of (docs (snd (updateStatus now ts orderId Canceled st))) orderId
     = Some (ord\<lparr>status := Canceled, updatedAt := ts\<rparr>)"
  using update_stored [OF assms] by (simp add: updateStatus_def Let_def)

text \<open>
  C6. For a stored order in any current status and any requested status, \<open>updateStatus\<close>
  succeeds and stores the requested status: no pair (current, requested) is rejected.
\<close>

theorem updateStatus_any_transition:
  assumes "reachable st" and "map_of (docs st) orderId = Some ord" and "status ord = current"
  shows "fst (updateStatus now ts orderId requested st) = Inr ()
     \<and> map_option status (map_of (docs (snd (updateStatus now ts orderId requested st))) orderId)
         = Some requested
     \<and> map_of (docs (snd (updateStatus now ts orderId requested st))) orderId
         = Some (ord\<lparr>status := requested,
                      closedAt := (if requested = Closed then Some now else closedAt ord),
                      updatedAt := ts\<rparr>)"
  using update_stored [OF assms(1,2)] by (simp add: updateStatus_def Let_def)

theorem updateStatus_any_transition_witness:
  "reachable sample_store \<and> map_of (docs sample_store) ''order-1'' = Some sample_order
   \<and> status sample_order = Closed
   \<and> fst (updateStatus 200 201 ''order-1'' Draft sample_store) = Inr ()
   \<and> map_option status (map_of (docs (snd (updateStatus 200 201 ''order-1'' Draft sample_store))) ''order-1'')
       = Some Draft"
  using updateStatus_any_transition [OF sample_store_facts(1,2), of Closed 200 201 Draft]
  by (simp add: sample_store_facts sample_order_def)

text \<open>
  C10. \<open>addPayment\<close> reads the order first. When the id resolves to no stored order it
  fails with an error and the store is unchanged. When the order exists (and the store
  answers) it succeeds and the stored order has as payments the previous sequence with the
  new payment appended at the end: \<open>ps @ [payment]\<close> when the field held \<open>ps\<close>, and
  \<open>[payment]\<close> when the field was absent; items, amounts, status and channel are
  unchanged, and no other document changes.
\<close>

theorem addPayment_appends:
  "(map_of (docs st) orderId = None \<longrightarrow>
      (\<exists>e. fst (addPayment ts orderId payment st) = Inl (Failed ''Failed to add payment'' e))
      \<and> snd (addPayment ts orderId payment st) = st)
   \<and> (reachable st \<and> map_of (docs st) orderId = Some ord \<longrightarrow>
      fst (addPayment ts orderId payment st) = Inr ()
      \<and> (\<exists>ord'. map_of (docs (snd (addPayment ts orderId payment st))) orderId = Some ord'
            \<and> (\<forall>ps. payments ord = Some ps \<longrightarrow> payments ord' = Some (ps @ [payment]))
            \<and> (payments ord = None \<longrightarrow> payments ord' = Some [payment])
            \<and> items ord' = items ord \<and> amounts ord' = amounts ord
            \<and> status ord' = status ord \<and> channel ord' = channel ord
            \<and> ord' = ord\<lparr>payments := Some ((case payments ord of None \<Rightarrow> [] | Some ps \<Rightarrow> ps)
                                             @ [payment]),
                          updatedAt := ts\<rparr>)
      \<and> (\<forall>j. j \<noteq> orderId \<longrightarrow>
            map_of (docs (snd (addPayment ts orderId payment st))) j = map_of (docs st) j))"
proof (intro conjI impI)
  assume "map_of (docs st) orderId = None"
  then show "\<exists>e. fst (addPayment ts orderId payment st) = Inl (Failed ''Failed to add payment'' e)"
    and "snd (addPayment ts orderId payment st) = st"
    by (simp_all add: addPayment_def findById_def)
next
  assume a: "reachable st \<and> map_of (docs st) orderId = Some ord"
  then have r: "reachable st" and m: "map_of (docs st) orderId = Some ord" by simp_all
  have eq: "addPayment ts orderId payment st
      = update ts orderId
          (\<lambda>d. d\<lparr>payments := Some ((case payments ord of None \<Rightarrow> [] | Some ps \<Rightarrow> ps) @ [payment])\<rparr>) st"
    using r m by (simp add: addPayment_def findById_def or_empty_def Let_def)
  show "fst (addPayment ts orderId payment st) = Inr ()"
    unfolding eq using update_stored(1) [OF r m] by simp
  show "\<exists>ord'. map_of (docs (snd (addPayment ts orderId payment st))) orderId = Some ord'
            \<and> (\<forall>ps. payments ord = Some ps \<longrightarrow> payments ord' = Some (ps @ [payment]))
            \<and> (payments ord = None \<longrightarrow> payments ord' = Some [payment])
            \<and> items ord' = items ord \<and> amounts ord' = amounts ord
            \<and> status ord' = status ord \<and> channel ord' = channel ord
            \<and> ord' = ord\<lparr>payments := Some ((case payments ord of None \<Rightarrow> [] | Some ps \<Rightarrow> ps)
                                             @ [payment]),
                          updatedAt := ts\<rparr>"
    unfolding eq using update_stored(2) [OF r m, of ts _ orderId] by simp
  show "\<forall>j. j \<noteq> orderId \<longrightarrow>
            map_of (docs (snd (addPayment ts orderId payment st))) j = map_of (docs st) j"
    unfolding eq using update_stored(2) [OF r m] by simp
qed

lemma paid_store_facts:
  "reachable paid_store" "map_of (docs paid_store) ''order-1'' = Some paid_order"
  "map_of (docs paid_store) ''order-7'' = None"
  "payments paid_order = Some [\<lparr>payment_method = Cash, amount = 2000, changeDue = None\<rparr>]"
  "payments sample_order = None"
  by (simp_all add: paid_store_def paid_order_def sample_order_def)

theorem addPayment_appends_witness:
  "map_of (docs paid_store) ''order-7'' = None
   \<and> fst (addPayment 400 ''order-7'' \<lparr>payment_method = Pix, amount = 1828, changeDue = None\<rparr> paid_store)
       = Inl (Failed ''Failed to add payment'' (Error ''Order not found''))
   \<and> snd (addPayment 400 ''order-7'' \<lparr>payment_method = Pix, amount = 1828, changeDue = None\<rparr> paid_store)
       = paid_store
   \<and> reachable paid_store \<and> map_of (docs paid_store) ''order-1'' = Some paid_order
   \<and> payments paid_order = Some [\<lparr>payment_method = Cash, amount = 2000, changeDue = None\<rparr>]
   \<and> fst (addPayment 400 ''order-1'' \<lparr>payment_method = Pix, amount = 1828, changeDue = None\<rparr> paid_store)
       = Inr ()
   \<and> map_option payments
        (map_of (docs (snd (addPayment 400 ''order-1'' \<lparr>payment_method = Pix, amount = 1828, changeDue = None\<rparr>
            paid_store))) ''order-1'')
       = Some (Some [\<lparr>payment_method = Cash, amount = 2000, changeDue = None\<rparr>,
                     \<lparr>payment_method = Pix, amount = 1828, changeDue = None\<rparr>])
   \<and> reachable sample_store \<and> map_of (docs sample_store) ''order-1'' = Some sample_order
   \<and> payments sample_order = None
   \<and> map_option payments
        (map_of (docs (snd (addPayment 400 ''order-1'' \<lparr>payment_method = Pix, amount = 3828, changeDue = None\<rparr>
            sample_store))) ''order-1'')
       = Some (Some [\<lparr>payment_method = Pix, amount = 3828, changeDue = None\<rparr>])"
proof -
  have e: "fst (addPayment 400 ''order-7'' \<lparr>payment_method = Pix, amount = 1828, changeDue = None\<rparr> paid_store)
       = Inl (Failed ''Failed to add payment'' (Error ''Order not found''))"
    by (simp add: addPayment_def findById_def paid_store_facts)
  show ?thesis
    using addPayment_appends [of paid_store "''order-7''" 400
          "\<lparr>payment_method = Pix, amount = 1828, changeDue = None\<rparr>" paid_order]
      addPayment_appends [of paid_store "''order-1''" 400
          "\<lparr>payment_method = Pix, amount = 1828, changeDue = None\<rparr>" paid_order]
      addPayment_appends [of sample_store "''order-1''" 400
          "\<lparr>payment_method = Pix, amount = 3828, changeDue = None\<rparr>" sample_order]
    by (auto simp add: e paid_store_facts sample_store_facts)
qed

subsection \<open>Coupon validation\<close>

lemma upper_char_idem: "upper_char (upper_char c) = upper_char c"
  by (auto simp: upper_char_def Let_def)

lemma toUpperCase_idem: "toUpperCase (toUpperCase s) = toUpperCase s"
  by (simp add: toUpperCase_def upper_char_idem)

lemma findByCode_reachable:
  assumes "reachable st"
  shows "findByCode fs c st
     = Inr (case fs [(''code'', Eq, VString (toUpperCase c))] None (docs st) of
              [] \<Rightarrow> None | x # _ \<Rightarrow> Some x)"
  using assms
  by (simp add: findByCode_def findWhere_def query_get_def rethrow_def where_clause_def
      getCollection_def truthy_number_def Let_def)

lemma validateCoupon_store_failure:
  "\<not> reachable st \<Longrightarrow> validateCoupon fs now c sub st
     = \<lparr>valid = False, coupon = None, message = Some Error_validating_coupon\<rparr>"
  by (simp add: validateCoupon_def findByCode_def findWhere_def query_get_def rethrow_def Let_def)

lemma validateCoupon_answered:
  assumes "reachable st"
  shows "\<exists>lookup. findByCode fs c st = Inr lookup \<and> findByCode fs (toUpperCase c) st = Inr lookup
     \<and> (message (validateCoupon fs now c sub st) = Some Coupon_not_found \<longleftrightarrow> lookup = None)
     \<and> (message (validateCoupon fs now c sub st) = Some Coupon_is_not_active \<longleftrightarrow>
          (\<exists>cp. lookup = Some cp \<and> \<not> active cp))
     \<and> (message (validateCoupon fs now c sub st) = Some Coupon_is_not_yet_valid \<longleftrightarrow>
          (\<exists>cp. lookup = Some cp \<and> active cp
             \<and> js_less (Some (of_int now)) (date_number (validFrom cp))))
     \<and> (message (validateCoupon fs now c sub st) = Some Coupon_has_expired \<longleftrightarrow>
          (\<exists>cp. lookup = Some cp \<and> active cp
             \<and> \<not> js_less (Some (of_int now)) (date_number (validFrom cp))
             \<and> js_less (date_number (validTo cp)) (Some (of_int now))))
     \<and> ((\<exists>m. message (validateCoupon fs now c sub st) = Some (Minimum_order_value_required m)) \<longleftrightarrow>
          (\<exists>cp. lookup = Some cp \<and> active cp
             \<and> \<not> js_less (Some (of_int now)) (date_number (validFrom cp))
             \<and> \<not> js_less (date_number (validTo cp)) (Some (of_int now))
             \<and> (\<exists>m. minSubtotal cp = Some m \<and> m \<noteq> 0 \<and> sub < m)))
     \<and> (valid (validateCoupon fs now c sub st) \<longleftrightarrow>
          (\<exists>cp. lookup = Some cp \<and> active cp
             \<and> \<not> js_less (Some (of_int now)) (date_number (validFrom cp))
             \<and> \<not> js_less (date_number (validTo cp)) (Some (of_int now))
             \<and> \<not> (\<exists>m. minSubtotal cp = Some m \<and> m \<noteq> 0 \<and> sub < m)))
     \<and> (valid (validateCoupon fs now c sub st) \<longleftrightarrow> message (validateCoupon fs now c sub st) = None)
     \<and> (valid (validateCoupon fs now c sub st) \<longrightarrow> coupon (validateCoupon fs now c sub st) = lookup)
     \<and> message (validateCoupon fs now c sub st) \<noteq> Some Error_validating_coupon"
proof -
  define lookup where "lookup = (case fs [(''code'', Eq, VString (toUpperCase c))] None (docs st) of
              [] \<Rightarrow> None | x # _ \<Rightarrow> Some x)"
  have f: "findByCode fs c st = Inr lookup" and g: "findByCode fs (toUpperCase c) st = Inr lookup"
    using findByCode_reachable [OF assms] by (simp_all add: lookup_def toUpperCase_idem)
  have b: "below_minimum m sub \<longleftrightarrow> (\<exists>k. m = Some k \<and> k \<noteq> 0 \<and> sub < k)" for m
    by (cases m) (simp_all add: below_minimum_def)
  have d: "\<exists>m. x = m * 100" for x :: rat
    by (rule exI [of _ "x / 100"]) simp
  show ?thesis
  proof (intro exI [of _ lookup] conjI f g)
    show "(\<exists>m. message (validateCoupon fs now c sub st) = Some (Minimum_order_value_required m)) \<longleftrightarrow>
          (\<exists>cp. lookup = Some cp \<and> active cp
             \<and> \<not> js_less (Some (of_int now)) (date_number (validFrom cp))
             \<and> \<not> js_less (date_number (validTo cp)) (Some (of_int now))
             \<and> (\<exists>m. minSubtotal cp = Some m \<and> m \<noteq> 0 \<and> sub < m))"
      by (cases lookup) (auto simp add: validateCoupon_def f b d)
  qed (cases lookup; auto simp add: validateCoupon_def f b; fail)+
qed

text \<open>
  C3 (as amended). \<open>validateCoupon\<close> always returns a result and has seven outcomes. When
  the store does not answer the lookup the result is invalid with the message "Error
  validating coupon". Whenever the store answers, the lookup is the one of the upper-cased
  code and the result is exactly one of: not found (no coupon), inactive, not yet valid
  (active and the comparison now < validFrom holds), expired (active, not early, and the
  comparison now > validTo holds), below minimum (neither comparison holds, minSubtotal
  set and subtotal below it), valid (otherwise). Each outcome is reached only when every
  earlier check has passed, so an inactive coupon reports inactive whatever its dates. The
  two comparisons are those of the code: the current \<open>Date\<close> against the stored value as
  the store hands it back.
\<close>

theorem validateCoupon_outcome:
  "(\<not> reachable st \<longrightarrow>
      validateCoupon fs now c sub st
        = \<lparr>valid = False, coupon = None, message = Some Error_validating_coupon\<rparr>)
   \<and> (reachable st \<longrightarrow>
      (\<exists>lookup. findByCode fs c st = Inr lookup \<and> findByCode fs (toUpperCase c) st = Inr lookup
     \<and> (message (validateCoupon fs now c sub st) = Some Coupon_not_found \<longleftrightarrow> lookup = None)
     \<and> (message (validateCoupon fs now c sub st) = Some Coupon_is_not_active \<longleftrightarrow>
          (\<exists>cp. lookup = Some cp \<and> \<not> active cp))
     \<and> (message (validateCoupon fs now c sub st) = Some Coupon_is_not_yet_valid \<longleftrightarrow>
          (\<exists>cp. lookup = Some cp \<and> active cp
             \<and> js_less (Some (of_int now)) (date_number (validFrom cp))))
     \<and> (message (validateCoupon fs now c sub st) = Some Coupon_has_expired \<longleftrightarrow>
          (\<exists>cp. lookup = Some cp \<and> active cp
             \<and> \<not> js_less (Some (of_int now)) (date_number (validFrom cp))
             \<and> js_less (date_number (validTo cp)) (Some (of_int now))))
     \<and> ((\<exists>m. message (validateCoupon fs now c sub st) = Some (Minimum_order_value_required m)) \<longleftrightarrow>
          (\<exists>cp. lookup = Some cp \<and> active cp
             \<and> \<not> js_less (Some (of_int now)) (date_number (validFrom cp))
             \<and> \<not> js_less (date_number (validTo cp)) (Some (of_int now))
             \<and> (\<exists>m. minSubtotal cp = Some m \<and> m \<noteq> 0 \<and> sub < m)))
     \<and> (valid (validateCoupon fs now c sub st) \<longleftrightarrow>
          (\<exists>cp. lookup = Some cp \<and> active cp
             \<and> \<not> js_less (Some (of_int now)) (date_number (validFrom cp))
             \<and> \<not> js_less (date_number (validTo cp)) (Some (of_int now))
             \<and> \<not> (\<exists>m. minSubtotal cp = Some m \<and> m \<noteq> 0 \<and> sub < m)))
     \<and> (valid (validateCoupon fs now c sub st) \<longleftrightarrow> message (validateCoupon fs now c sub st) = None)
     \<and> (valid (validateCoupon fs now c sub st) \<longrightarrow> coupon (validateCoupon fs now c sub st) = lookup)
     \<and> message (validateCoupon fs now c sub st) \<noteq> Some Error_validating_coupon))
   \<and> validateCoupon fs now (toUpperCase c) sub st = validateCoupon fs now c sub st"
proof (intro conjI impI)
  show "validateCoupon fs now (toUpperCase c) sub st = validateCoupon fs now c sub st"
    by (simp add: validateCoupon_def findByCode_def toUpperCase_idem)
qed (rule validateCoupon_store_failure, assumption, rule validateCoupon_answered, assumption)

text \<open>
  Sample results at 2024-06-01: an inactive coupon; a store that does not answer; a coupon
  whose window 2024-01-01 to 2024-12-31 is stored as timestamps, which the comparison
  reports as expired; a valid coupon.
\<close>

lemma sample_coupon_values:
  "validateCoupon code_engine 1717200000000 ''verao23'' 5000 sample_coupons
     = \<lparr>valid = False, coupon = None, message = Some Coupon_is_not_active\<rparr>"
  "validateCoupon code_engine 1717200000000 ''bemvindo10'' 5000 unreachable_coupons
     = \<lparr>valid = False, coupon = None, message = Some Error_validating_coupon\<rparr>"
  "validateCoupon code_engine 1717200000000 ''bemvindo10'' 5000 sample_coupons
     = \<lparr>valid = False, coupon = None, message = Some Coupon_has_expired\<rparr>"
  "valid (validateCoupon code_engine 1717200000000 ''natal'' 5000 sample_coupons)"
  by code_simp+

theorem validateCoupon_outcome_witness:
  "reachable sample_coupons \<and> \<not> reachable unreachable_coupons
   \<and> message (validateCoupon code_engine 1717200000000 ''verao23'' 5000 sample_coupons)
       = Some Coupon_is_not_active
   \<and> message (validateCoupon code_engine 1717200000000 ''verao23'' 5000 sample_coupons)
       \<noteq> Some Coupon_has_expired
   \<and> message (validateCoupon code_engine 1717200000000 ''bemvindo10'' 5000 unreachable_coupons)
       = Some Error_validating_coupon"
proof -
  have r: "reachable sample_coupons" "\<not> reachable unreachable_coupons"
    by (simp_all add: sample_coupons_def unreachable_coupons_def)
  show ?thesis
    using validateCoupon_outcome [of sample_coupons code_engine 1717200000000 "''verao23''" 5000]
      validateCoupon_outcome [of unreachable_coupons code_engine 1717200000000 "''bemvindo10''" 5000] r
    by (simp add: sample_coupon_values)
qed

text \<open>
  The claim as stated fails: when the store does not answer, the result is none of the six
  outcomes but the seventh, "Error validating coupon".
\<close>

theorem seventh_outcome_counterexample:
  "validateCoupon code_engine 1717200000000 ''bemvindo10'' 5000 unreachable_coupons
     = \<lparr>valid = False, coupon = None, message = Some Error_validating_coupon\<rparr>"
  by (rule sample_coupon_values(2))

subsection \<open>Coupon discount in the cart\<close>

lemma Math_round_nearest: "of_int (Math_round x) \<le> x + 1 / 2" "x - 1 / 2 < of_int (Math_round x)"
  unfolding Math_round_def by linarith+

text \<open>
  The double product \<open>subtotal * (value / 100)\<close> is within \<open>|subtotal * value / 100| / 2 ^ 51\<close>
  of the exact percentage.
\<close>

lemma percent_product_error:
  "\<bar>double (of_int sub * double (of_int v / 100)) - of_int sub * of_int v / 100\<bar>
     \<le> \<bar>of_int sub * of_int v / 100\<bar> / 2 ^ 51"
proof -
  let ?q = "of_int v / 100 :: rat"
  let ?c = "double ?q"
  let ?x = "of_int sub * ?c :: rat"
  let ?e = "of_int sub * ?q :: rat"
  have c: "\<bar>?c - ?q\<bar> \<le> \<bar>?q\<bar> / 2 ^ 53" by (rule double_error)
  have "\<bar>?x - ?e\<bar> = \<bar>of_int sub\<bar> * \<bar>?c - ?q\<bar>"
    by (simp add: abs_mult [symmetric] algebra_simps)
  also have "\<dots> \<le> \<bar>of_int sub\<bar> * (\<bar>?q\<bar> / 2 ^ 53)"
    using c by (intro mult_left_mono) simp_all
  also have "\<dots> = \<bar>?e\<bar> / 2 ^ 53" by (simp add: abs_mult)
  finally have x: "\<bar>?x - ?e\<bar> \<le> \<bar>?e\<bar> / 2 ^ 53" .
  have "\<bar>?e\<bar> / 2 ^ 53 \<le> \<bar>?e\<bar>" by (simp add: divide_le_eq)
  with x have ax: "\<bar>?x\<bar> \<le> 2 * \<bar>?e\<bar>" by linarith
  have "\<bar>double ?x - ?x\<bar> \<le> \<bar>?x\<bar> / 2 ^ 53" by (rule double_error)
  also have "\<dots> \<le> 2 * \<bar>?e\<bar> / 2 ^ 53" using ax by (intro divide_right_mono) simp_all
  finally have y: "\<bar>double ?x - ?x\<bar> \<le> 2 * \<bar>?e\<bar> / 2 ^ 53" .
  have "\<bar>double ?x - ?e\<bar> \<le> \<bar>double ?x - ?x\<bar> + \<bar>?x - ?e\<bar>" by linarith
  also have "\<dots> \<le> 2 * \<bar>?e\<bar> / 2 ^ 53 + \<bar>?e\<bar> / 2 ^ 53" using x y by linarith
  also have "\<dots> \<le> \<bar>?e\<bar> / 2 ^ 51" by simp
  finally show ?thesis by (simp add: algebra_simps)
qed

lemma percent_bounds:
  assumes "0 \<le> sub" "sub < 2 ^ 50" "0 \<le> v" "v \<le> 100"
  shows "0 \<le> Math_round (double (of_int sub * double (of_int v / 100)))"
    and "Math_round (double (of_int sub * double (of_int v / 100))) \<le> sub"
proof -
  let ?y = "double (of_int sub * double (of_int v / 100))"
  let ?e = "of_int sub * of_int v / 100 :: rat"
  have e0: "0 \<le> ?e" using assms by simp
  have "of_int v / 100 \<le> (1::rat)" using assms by simp
  then have "of_int sub * (of_int v / 100) \<le> (of_int sub :: rat) * 1"
    using assms(1) by (intro mult_left_mono) simp_all
  then have es: "?e \<le> of_int sub" by simp
  have "(of_int sub :: rat) < of_int (2 ^ 50)" using assms(2) by (simp only: of_int_less_iff)
  then have s50: "(of_int sub :: rat) < 2 ^ 50" by simp
  have err: "\<bar>?y - ?e\<bar> \<le> ?e / 2 ^ 51"
    using percent_product_error [of sub v] e0 by simp
  have "?e / 2 ^ 51 \<le> ?e" using e0 by (simp add: divide_le_eq)
  with err have "0 \<le> ?y" by linarith
  then have "\<lfloor>(0::rat)\<rfloor> \<le> \<lfloor>?y + 1 / 2\<rfloor>" by (intro floor_mono) simp
  then show "0 \<le> Math_round ?y" by (simp add: Math_round_def)
  have "?e / 2 ^ 51 \<le> of_int sub / 2 ^ 51" using es by (intro divide_right_mono) simp_all
  also have "\<dots> < 1 / 2" using s50 by simp
  finally have "?e / 2 ^ 51 < 1 / 2" .
  with err es have "?y + 1 / 2 < of_int sub + 1" by linarith
  then have "\<lfloor>?y + 1 / 2\<rfloor> \<le> sub" by (simp only: floor_le_iff)
  then show "Math_round ?y \<le> sub" by (simp add: Math_round_def)
qed

text \<open>
  C4 (as amended). Whenever \<open>handleApplyCoupon\<close> applies a coupon, the discount is
  \<open>Math.round(subtotal * (value / 100))\<close> evaluated in double precision for a percent
  coupon, and value for a fixed coupon. The percent discount is the integer nearest to the
  double product (halves rounded up), and differs from the exact percentage by at most
  1/2 + |subtotal * value / 100| / 2^51. No cap is applied: the discount is between 0 and
  the subtotal for a percent coupon with 0 \<le> value \<le> 100 on a subtotal from 0 to below
  2^50, and a fixed discount is at most the subtotal exactly when value \<le> subtotal.
\<close>

theorem handleApplyCoupon_discount:
  assumes "handleApplyCoupon coupons now couponInput sub = ApplyCoupon c discount"
  shows "\<exists>cp. getCoupon coupons now (toUpperCase couponInput) = Some cp
     \<and> c = toUpperCase couponInput
     \<and> discount = (if coupon_type cp = Percent
                    then Math_round (double (of_int sub * double (of_int (coupon_value cp) / 100)))
                    else coupon_value cp)
     \<and> (coupon_type cp = Percent \<longrightarrow>
           of_int discount \<le> double (of_int sub * double (of_int (coupon_value cp) / 100)) + 1 / 2
           \<and> double (of_int sub * double (of_int (coupon_value cp) / 100)) - 1 / 2 < of_int discount
           \<and> \<bar>of_int discount - of_int sub * of_int (coupon_value cp) / 100\<bar>
                \<le> 1 / 2 + \<bar>of_int sub * of_int (coupon_value cp) / 100 :: rat\<bar> / 2 ^ 51)
     \<and> (coupon_type cp = Percent \<and> 0 \<le> sub \<and> sub < 2 ^ 50
           \<and> 0 \<le> coupon_value cp \<and> coupon_value cp \<le> 100 \<longrightarrow>
           0 \<le> discount \<and> discount \<le> sub)
     \<and> (coupon_type cp = Fixed \<longrightarrow> discount = coupon_value cp
           \<and> (discount \<le> sub \<longleftrightarrow> coupon_value cp \<le> sub))"
proof -
  from assms obtain cp where g: "getCoupon coupons now (toUpperCase couponInput) = Some cp"
    by (auto simp: handleApplyCoupon_def split: if_splits option.splits)
  let ?y = "double (of_int sub * double (of_int (coupon_value cp) / 100))"
  from assms g have c: "c = toUpperCase couponInput"
    and d: "discount = (if coupon_type cp = Percent then Math_round ?y else coupon_value cp)"
    by (auto simp: handleApplyCoupon_def Let_def split: if_splits)
  show ?thesis
  proof (intro exI [of _ cp] conjI g c d impI)
    assume p: "coupon_type cp = Percent"
    with d have dd: "discount = Math_round ?y" by simp
    show u: "of_int discount \<le> ?y + 1 / 2" and l: "?y - 1 / 2 < of_int discount"
      using Math_round_nearest [of ?y] dd by simp_all
    show "\<bar>of_int discount - of_int sub * of_int (coupon_value cp) / 100\<bar>
                \<le> 1 / 2 + \<bar>of_int sub * of_int (coupon_value cp) / 100 :: rat\<bar> / 2 ^ 51"
      using u l percent_product_error [of sub "coupon_value cp"] by linarith
  next
    assume "coupon_type cp = Percent \<and> 0 \<le> sub \<and> sub < 2 ^ 50
           \<and> 0 \<le> coupon_value cp \<and> coupon_value cp \<le> 100"
    then show "0 \<le> discount" and "discount \<le> sub"
      using percent_bounds [of sub "coupon_value cp"] d by simp_all
  next
    assume "coupon_type cp = Fixed"
    then show "discount = coupon_value cp" "(discount \<le> sub) = (coupon_value cp \<le> sub)"
      using d by simp_all
  qed
qed

lemma demo_apply:
  "handleApplyCoupon demoCoupons 1717200000000 ''desconto5'' 300 = ApplyCoupon ''DESCONTO5'' 500"
  "handleApplyCoupon demoCoupons 1717200000000 ''bemvindo10'' 3480 = ApplyCoupon ''BEMVINDO10'' 348"
  by code_simp+

text \<open>
  In double precision 29 percent of 50 is 14.499999999999998, so the discount is 14 although
  the exact percentage 14.5 rounds half-up to 15.
\<close>

lemma percent_29_of_50:
  "handleApplyCoupon percent_coupons 1717200000000 ''promo29'' 50 = ApplyCoupon ''PROMO29'' 14"
  "\<lfloor>rat_of_int 50 * 29 / 100 + 1 / 2\<rfloor> = 15"
  by code_simp+

text \<open>
  The claim as stated fails: on 2024-06-01 the fixed demo coupon DESCONTO5 (value 500, no
  minimum) applied to a subtotal of 300 gives a discount of 500, above the subtotal.
\<close>

theorem uncapped_discount_counterexample:
  "handleApplyCoupon demoCoupons 1717200000000 ''desconto5'' 300 = ApplyCoupon ''DESCONTO5'' 500
   \<and> (300 :: int) < 500"
  by (simp add: demo_apply)

theorem handleApplyCoupon_discount_witness:
  "handleApplyCoupon demoCoupons 1717200000000 ''bemvindo10'' 3480 = ApplyCoupon ''BEMVINDO10'' 348
   \<and> (348 :: int) \<le> 3480
   \<and> handleApplyCoupon percent_coupons 1717200000000 ''promo29'' 50 = ApplyCoupon ''PROMO29'' 14"
  using handleApplyCoupon_discount [OF demo_apply(2)]
    handleApplyCoupon_discount [OF percent_29_of_50(1)]
  by (simp add: demo_apply percent_29_of_50)

subsection \<open>Pagination\<close>

lemma drop_take_page:
  assumes "0 \<le> offset" "0 \<le> n"
  shows "drop (nat offset) (take (nat (offset + n)) xs) = take (nat n) (drop (nat offset) xs)"
  using assms by (simp add: drop_take nat_add_distrib)

lemma offset_nonneg:
  assumes "1 \<le> pg" "1 \<le> (n :: int)"
  shows "0 \<le> (pg - 1) * n" "\<not> 0 < (pg - 1) * n \<Longrightarrow> (pg - 1) * n = 0"
proof -
  show n: "0 \<le> (pg - 1) * n" using assms by (intro mult_nonneg_nonneg) simp_all
  show "(pg - 1) * n = 0" if "\<not> 0 < (pg - 1) * n" using n that by linarith
qed

lemma order_query_page [simp]:
  "order_query (p\<lparr>page := a\<rparr>) = order_query p" "order_query (p\<lparr>limit := b\<rparr>) = order_query p"
  by (simp_all add: order_query_def)

lemma order_page:
  assumes "reachable st" and "1 \<le> page p" and "1 \<le> limit p"
  shows "OrderRepository_findWithQuery fs p st =
     Inr \<lparr>page_items = take (nat (limit p)) (drop (nat ((page p - 1) * limit p))
                          (fs (wheres (order_query p)) (orderBy (order_query p)) (docs st))),
          page_total = int (length (fs (wheres (order_query p)) (orderBy (order_query p)) (docs st))),
          totalPages = Some \<lceil>rat_of_int (int (length (fs (wheres (order_query p)) (orderBy (order_query p)) (docs st))))
                              / rat_of_int (limit p)\<rceil>,
          currentPage = page p\<rparr>"
proof (cases "0 < (page p - 1) * limit p")
  case True
  then show ?thesis
    using assms
    by (simp add: OrderRepository_findWithQuery_def rethrow_def query_count_def query_get_def
        js_divide_def Math_ceil_def Let_def drop_take_page)
next
  case False
  then have "(page p - 1) * limit p = 0" using offset_nonneg(2) assms by simp
  with False show ?thesis
    using assms
    by (simp add: OrderRepository_findWithQuery_def rethrow_def query_count_def query_get_def
        js_divide_def Math_ceil_def Let_def)
qed

lemma product_query_page [simp]:
  "product_query (p\<lparr>page := a\<rparr>) = product_query p"
  "product_query (p\<lparr>limit := b\<rparr>) = product_query p"
  "product_query (p\<lparr>search := c\<rparr>) = product_query p"
  by (simp_all add: product_query_def)

lemma product_page:
  assumes "reachable st" and "1 \<le> page p" and "1 \<le> limit p"
  shows "ProductRepository_findWithQuery fs p st =
     Inr \<lparr>page_items = search_filter (search p) (take (nat (limit p)) (drop (nat ((page p - 1) * limit p))
                          (fs (wheres (product_query p)) (orderBy (product_query p)) (docs st)))),
          page_total = int (length (fs (wheres (product_query p)) (orderBy (product_query p)) (docs st))),
          totalPages = Some \<lceil>rat_of_int (int (length (fs (wheres (product_query p)) (orderBy (product_query p)) (docs st))))
                              / rat_of_int (limit p)\<rceil>,
          currentPage = page p\<rparr>"
proof (cases "0 < (page p - 1) * limit p")
  case True
  then show ?thesis
    using assms
    by (simp add: ProductRepository_findWithQuery_def rethrow_def query_count_def query_get_def
        js_divide_def Math_ceil_def Let_def drop_take_page)
next
  case False
  then have "(page p - 1) * limit p = 0" using offset_nonneg(2) assms by simp
  with False show ?thesis
    using assms
    by (simp add: ProductRepository_findWithQuery_def rethrow_def query_count_def query_get_def
        js_divide_def Math_ceil_def Let_def)
qed

lemma search_filter_none: "\<not> truthy_string s \<Longrightarrow> search_filter s xs = xs"
  by (cases s) (simp_all add: search_filter_def truthy_string_def)

lemma order_pagination:
  assumes "reachable st" and "1 \<le> page p" and "1 \<le> limit p"
  shows "\<exists>r. OrderRepository_findWithQuery fs p st = Inr r
     \<and> ((page p - 1) * limit p = 0 \<longrightarrow>
           query_get fs st ((order_query p)\<lparr>limitTo := Some (limit p)\<rparr>) = Inr (page_items r))
     \<and> ((page p - 1) * limit p > 0 \<longrightarrow>
           (\<exists>allDocs. query_get fs st ((order_query p)\<lparr>limitTo := Some ((page p - 1) * limit p + limit p)\<rparr>)
                        = Inr allDocs
              \<and> page_items r = drop (nat ((page p - 1) * limit p)) allDocs))
     \<and> query_count fs st (order_query p) = Inr (page_total r)
     \<and> totalPages r = Some \<lceil>rat_of_int (page_total r) / rat_of_int (limit p)\<rceil>
     \<and> currentPage r = page p
     \<and> (\<exists>r1. OrderRepository_findWithQuery fs (p\<lparr>page := 1, limit := (page p - 1) * limit p + limit p\<rparr>) st
                  = Inr r1
            \<and> page_items r = drop (nat ((page p - 1) * limit p)) (page_items r1))
     \<and> (page p = 3 \<and> limit p = 20 \<longrightarrow>
           (\<exists>r1. OrderRepository_findWithQuery fs (p\<lparr>page := 1, limit := 60\<rparr>) st = Inr r1
              \<and> page_items r = drop 40 (page_items r1)))"
proof -
  let ?all = "fs (wheres (order_query p)) (orderBy (order_query p)) (docs st)"
  let ?off = "(page p - 1) * limit p"
  let ?r = "\<lparr>page_items = take (nat (limit p)) (drop (nat ?off) ?all),
             page_total = int (length ?all),
             totalPages = Some \<lceil>rat_of_int (int (length ?all)) / rat_of_int (limit p)\<rceil>,
             currentPage = page p\<rparr>"
  note off = offset_nonneg [OF assms(2,3)]
  have dt: "drop (nat ?off) (take (nat (?off + limit p)) ?all) = take (nat (limit p)) (drop (nat ?off) ?all)"
    using drop_take_page [OF off(1), of "limit p" ?all] assms(3) by simp
  have one: "OrderRepository_findWithQuery fs (p\<lparr>page := 1, limit := ?off + limit p\<rparr>) st
      = Inr \<lparr>page_items = take (nat (?off + limit p)) ?all, page_total = int (length ?all),
              totalPages = Some \<lceil>rat_of_int (int (length ?all)) / rat_of_int (?off + limit p)\<rceil>,
              currentPage = 1\<rparr>"
    using order_page [of st "p\<lparr>page := 1, limit := ?off + limit p\<rparr>" fs] assms off(1) by simp
  have r: "OrderRepository_findWithQuery fs p st = Inr ?r"
    by (rule order_page [OF assms(1-3)])
  have a: "?off = 0 \<longrightarrow> query_get fs st ((order_query p)\<lparr>limitTo := Some (limit p)\<rparr>) = Inr (page_items ?r)"
    using assms(1) by (simp add: query_get_def)
  have b: "?off > 0 \<longrightarrow>
           (\<exists>allDocs. query_get fs st ((order_query p)\<lparr>limitTo := Some (?off + limit p)\<rparr>) = Inr allDocs
              \<and> page_items ?r = drop (nat ?off) allDocs)"
    using assms(1) dt by (simp add: query_get_def)
  have c: "query_count fs st (order_query p) = Inr (page_total ?r)"
    using assms(1) by (simp add: query_count_def)
  have d: "\<exists>r1. OrderRepository_findWithQuery fs (p\<lparr>page := 1, limit := ?off + limit p\<rparr>) st = Inr r1
            \<and> page_items ?r = drop (nat ?off) (page_items r1)"
    unfolding one using dt by simp
  have e: "page p = 3 \<and> limit p = 20 \<longrightarrow>
           (\<exists>r1. OrderRepository_findWithQuery fs (p\<lparr>page := 1, limit := 60\<rparr>) st = Inr r1
              \<and> page_items ?r = drop 40 (page_items r1))"
  proof
    assume h: "page p = 3 \<and> limit p = 20"
    then have "?off + limit p = 60" "nat ?off = 40" by simp_all
    with d show "\<exists>r1. OrderRepository_findWithQuery fs (p\<lparr>page := 1, limit := 60\<rparr>) st = Inr r1
              \<and> page_items ?r = drop 40 (page_items r1)" by simp
  qed
  show ?thesis
    by (rule exI [of _ ?r]) (use r a b c d e in simp)
qed

lemma product_pagination:
  assumes "reachable st" and "1 \<le> page p" and "1 \<le> limit p" and "\<not> truthy_string (search p)"
  shows "\<exists>r. ProductRepository_findWithQuery fs p st = Inr r
     \<and> ((page p - 1) * limit p = 0 \<longrightarrow>
           query_get fs st ((product_query p)\<lparr>limitTo := Some (limit p)\<rparr>) = Inr (page_items r))
     \<and> ((page p - 1) * limit p > 0 \<longrightarrow>
           (\<exists>allDocs. query_get fs st ((product_query p)\<lparr>limitTo := Some ((page p - 1) * limit p + limit p)\<rparr>)
                        = Inr allDocs
              \<and> page_items r = drop (nat ((page p - 1) * limit p)) allDocs))
     \<and> query_count fs st (product_query p) = Inr (page_total r)
     \<and> totalPages r = Some \<lceil>rat_of_int (page_total r) / rat_of_int (limit p)\<rceil>
     \<and> currentPage r = page p
     \<and> (\<exists>r1. ProductRepository_findWithQuery fs (p\<lparr>page := 1, limit := (page p - 1) * limit p + limit p\<rparr>) st
                  = Inr r1
            \<and> page_items r = drop (nat ((page p - 1) * limit p)) (page_items r1))
     \<and> (page p = 3 \<and> limit p = 20 \<longrightarrow>
           (\<exists>r1. ProductRepository_findWithQuery fs (p\<lparr>page := 1, limit := 60\<rparr>) st = Inr r1
              \<and> page_items r = drop 40 (page_items r1)))"
proof -
  let ?all = "fs (wheres (product_query p)) (orderBy (product_query p)) (docs st)"
  let ?off = "(page p - 1) * limit p"
  let ?r = "\<lparr>page_items = take (nat (limit p)) (drop (nat ?off) ?all),
             page_total = int (length ?all),
             totalPages = Some \<lceil>rat_of_int (int (length ?all)) / rat_of_int (limit p)\<rceil>,
             currentPage = page p\<rparr>"
  note off = offset_nonneg [OF assms(2,3)]
  have dt: "drop (nat ?off) (take (nat (?off + limit p)) ?all) = take (nat (limit p)) (drop (nat ?off) ?all)"
    using drop_take_page [OF off(1), of "limit p" ?all] assms(3) by simp
  have one: "ProductRepository_findWithQuery fs (p\<lparr>page := 1, limit := ?off + limit p\<rparr>) st
      = Inr \<lparr>page_items = take (nat (?off + limit p)) ?all, page_total = int (length ?all),
              totalPages = Some \<lceil>rat_of_int (int (length ?all)) / rat_of_int (?off + limit p)\<rceil>,
              currentPage = 1\<rparr>"
    using product_page [of st "p\<lparr>page := 1, limit := ?off + limit p\<rparr>" fs] assms off(1)
    by (simp add: search_filter_none)
  have r: "ProductRepository_findWithQuery fs p st = Inr ?r"
    using product_page [OF assms(1-3), of fs] assms(4) by (simp add: search_filter_none)
  have a: "?off = 0 \<longrightarrow> query_get fs st ((product_query p)\<lparr>limitTo := Some (limit p)\<rparr>) = Inr (page_items ?r)"
    using assms(1) by (simp add: query_get_def)
  have b: "?off > 0 \<longrightarrow>
           (\<exists>allDocs. query_get fs st ((product_query p)\<lparr>limitTo := Some (?off + limit p)\<rparr>) = Inr allDocs
              \<and> page_items ?r = drop (nat ?off) allDocs)"
    using assms(1) dt by (simp add: query_get_def)
  have c: "query_count fs st (product_query p) = Inr (page_total ?r)"
    using assms(1) by (simp add: query_count_def)
  have d: "\<exists>r1. ProductRepository_findWithQuery fs (p\<lparr>page := 1, limit := ?off + limit p\<rparr>) st = Inr r1
            \<and> page_items ?r = drop (nat ?off) (page_items r1)"
    unfolding one using dt by simp
  have e: "page p = 3 \<and> limit p = 20 \<longrightarrow>
           (\<exists>r1. ProductRepository_findWithQuery fs (p\<lparr>page := 1, limit := 60\<rparr>) st = Inr r1
              \<and> page_items ?r = drop 40 (page_items r1))"
  proof
    assume h: "page p = 3 \<and> limit p = 20"
    then have "?off + limit p = 60" "nat ?off = 40" by simp_all
    with d show "\<exists>r1. ProductRepository_findWithQuery fs (p\<lparr>page := 1, limit := 60\<rparr>) st = Inr r1
              \<and> page_items ?r = drop 40 (page_items r1)" by simp
  qed
  show ?thesis
    by (rule exI [of _ ?r]) (use r a b c d e in simp)
qed

text \<open>
  C5. For page \<ge> 1 and limit in [1,100], on a store that answers, \<open>findWithQuery\<close> of
  the order repository (and of the product repository without a search term) computes
  offset = (page - 1) * limit; when the offset is 0 the page is the answer to the query with
  limit alone; when it is positive the page is the answer to the query with limit
  offset + limit without its first offset documents; total is the answer of the count query
  and totalPages = ceil(total / limit). Hence a page equals the first page with limit
  offset + limit without its first offset documents: page 3 with limit 20 is the documents
  41 to 60 of page 1 with limit 60.
\<close>

theorem findWithQuery_pagination:
  "(reachable st \<and> 1 \<le> page p \<and> 1 \<le> limit p \<and> limit p \<le> 100 \<longrightarrow>
      (\<exists>r. OrderRepository_findWithQuery fs p st = Inr r
        \<and> ((page p - 1) * limit p = 0 \<longrightarrow>
              query_get fs st ((order_query p)\<lparr>limitTo := Some (limit p)\<rparr>) = Inr (page_items r))
        \<and> ((page p - 1) * limit p > 0 \<longrightarrow>
              (\<exists>allDocs. query_get fs st ((order_query p)\<lparr>limitTo := Some ((page p - 1) * limit p + limit p)\<rparr>)
                           = Inr allDocs
                 \<and> page_items r = drop (nat ((page p - 1) * limit p)) allDocs))
        \<and> query_count fs st (order_query p) = Inr (page_total r)
        \<and> totalPages r = Some \<lceil>rat_of_int (page_total r) / rat_of_int (limit p)\<rceil>
        \<and> currentPage r = page p
        \<and> (\<exists>r1. OrderRepository_findWithQuery fs (p\<lparr>page := 1, limit := (page p - 1) * limit p + limit p\<rparr>) st
                     = Inr r1
               \<and> page_items r = drop (nat ((page p - 1) * limit p)) (page_items r1))
        \<and> (page p = 3 \<and> limit p = 20 \<longrightarrow>
              (\<exists>r1. OrderRepository_findWithQuery fs (p\<lparr>page := 1, limit := 60\<rparr>) st = Inr r1
                 \<and> page_items r = drop 40 (page_items r1)))))
   \<and> (reachable st' \<and> 1 \<le> page q \<and> 1 \<le> limit q \<and> limit q \<le> 100 \<and> \<not> truthy_string (search q) \<longrightarrow>
      (\<exists>r. ProductRepository_findWithQuery fs' q st' = Inr r
        \<and> ((page q - 1) * limit q = 0 \<longrightarrow>
              query_get fs' st' ((product_query q)\<lparr>limitTo := Some (limit q)\<rparr>) = Inr (page_items r))
        \<and> ((page q - 1) * limit q > 0 \<longrightarrow>
              (\<exists>allDocs. query_get fs' st' ((product_query q)\<lparr>limitTo := Some ((page q - 1) * limit q + limit q)\<rparr>)
                           = Inr allDocs
                 \<and> page_items r = drop (nat ((page q - 1) * limit q)) allDocs))
        \<and> query_count fs' st' (product_query q) = Inr (page_total r)
        \<and> totalPages r = Some \<lceil>rat_of_int (page_total r) / rat_of_int (limit q)\<rceil>
        \<and> currentPage r = page q
        \<and> (\<exists>r1. ProductRepository_findWithQuery fs' (q\<lparr>page := 1, limit := (page q - 1) * limit q + limit q\<rparr>) st'
                     = Inr r1
               \<and> page_items r = drop (nat ((page q - 1) * limit q)) (page_items r1))
        \<and> (page q = 3 \<and> limit q = 20 \<longrightarrow>
              (\<exists>r1. ProductRepository_findWithQuery fs' (q\<lparr>page := 1, limit := 60\<rparr>) st' = Inr r1
                 \<and> page_items r = drop 40 (page_items r1)))))"
  using order_pagination [of st p fs] product_pagination [of st' q fs'] by blast

lemma second_product_value:
  "ProductRepository_findWithQuery all_engine second_product sample_products
     = Inr \<lparr>page_items = map snd (drop 1 (docs sample_products)), page_total = 2,
             totalPages = Some 2, currentPage = 2\<rparr>"
  by code_simp

lemma third_page_value:
  "(case OrderRepository_findWithQuery all_engine third_page (numbered_orders 65) of
      Inl e \<Rightarrow> None
    | Inr r \<Rightarrow> Some (map orderNumber (page_items r), page_total r, totalPages r))
   = Some (map int [41..<61], 65, Some 4)"
  by code_simp

theorem findWithQuery_pagination_witness:
  "reachable (numbered_orders 65) \<and> 1 \<le> page third_page \<and> 1 \<le> limit third_page
   \<and> limit third_page \<le> 100
   \<and> (\<exists>r r1. OrderRepository_findWithQuery all_engine third_page (numbered_orders 65) = Inr r
          \<and> OrderRepository_findWithQuery all_engine (third_page\<lparr>page := 1, limit := 60\<rparr>)
                (numbered_orders 65) = Inr r1
          \<and> page_items r = drop 40 (page_items r1)
          \<and> map orderNumber (page_items r) = map int [41..<61]
          \<and> page_total r = 65 \<and> totalPages r = Some 4)
   \<and> reachable sample_products \<and> 1 \<le> page second_product \<and> 1 \<le> limit second_product
   \<and> limit second_product \<le> 100 \<and> \<not> truthy_string (search second_product)
   \<and> (\<exists>r. ProductRepository_findWithQuery all_engine second_product sample_products = Inr r
          \<and> page_items r = map snd (drop 1 (docs sample_products)) \<and> totalPages r = Some 2)"
proof -
  have k: "reachable sample_products" "1 \<le> page second_product" "1 \<le> limit second_product"
    "limit second_product \<le> 100" "\<not> truthy_string (search second_product)"
    by (simp_all add: sample_products_def second_product_def truthy_string_def)
  have h: "reachable (numbered_orders 65)" "1 \<le> page third_page" "1 \<le> limit third_page"
    "limit third_page \<le> 100" "page third_page = 3 \<and> limit third_page = 20"
    by (simp_all add: numbered_orders_def third_page_def)
  from findWithQuery_pagination [of "numbered_orders 65" third_page all_engine] h
  obtain r r1 where r: "OrderRepository_findWithQuery all_engine third_page (numbered_orders 65) = Inr r"
    and r1: "OrderRepository_findWithQuery all_engine (third_page\<lparr>page := 1, limit := 60\<rparr>)
                (numbered_orders 65) = Inr r1"
    and d: "page_items r = drop 40 (page_items r1)"
    by blast
  have v: "map orderNumber (page_items r) = map int [41..<61]" "page_total r = 65" "totalPages r = Some 4"
    using third_page_value by (simp_all add: r)
  have "\<exists>r r1. OrderRepository_findWithQuery all_engine third_page (numbered_orders 65) = Inr r
          \<and> OrderRepository_findWithQuery all_engine (third_page\<lparr>page := 1, limit := 60\<rparr>)
                (numbered_orders 65) = Inr r1
          \<and> page_items r = drop 40 (page_items r1)
          \<and> map orderNumber (page_items r) = map int [41..<61]
          \<and> page_total r = 65 \<and> totalPages r = Some 4"
    using r r1 d v by blast
  with h k show ?thesis by (simp add: second_product_value)
qed

subsection \<open>Search over a page of products\<close>

lemma str_includes_iff: "str_includes s t \<longleftrightarrow> (\<exists>ps ss. s = ps @ t @ ss)"
proof (induction s)
  case Nil
  show ?case by auto
next
  case (Cons c s)
  show ?case
  proof
    assume "str_includes (c # s) t"
    then consider "prefix t (c # s)" | "str_includes s t" by auto
    then show "\<exists>ps ss. c # s = ps @ t @ ss"
    proof cases
      case 1
      then obtain ss where "c # s = t @ ss" by (auto simp: prefix_def)
      then have "c # s = [] @ t @ ss" by simp
      then show ?thesis by blast
    next
      case 2
      with Cons.IH obtain ps ss where "s = ps @ t @ ss" by blast
      then have "c # s = (c # ps) @ t @ ss" by simp
      then show ?thesis by blast
    qed
  next
    assume "\<exists>ps ss. c # s = ps @ t @ ss"
    then obtain ps ss where e: "c # s = ps @ t @ ss" by blast
    show "str_includes (c # s) t"
    proof (cases ps)
      case Nil
      with e have "prefix t (c # s)" by (simp add: prefix_def)
      then show ?thesis by simp
    next
      case (Cons a ps')
      with e have "s = ps' @ t @ ss" by simp
      with Cons.IH have "str_includes s t" by blast
      then show ?thesis by simp
    qed
  qed
qed

lemma search_filter_term:
  "t \<noteq> [] \<Longrightarrow> search_filter (Some t) xs
     = filter (\<lambda>x. str_includes (toLowerCase (product_name x)) (toLowerCase t)
                  \<or> str_includes (toLowerCase (description x)) (toLowerCase t)) xs"
  by (simp add: search_filter_def Let_def)

text \<open>
  C9. With a non-empty search term (page \<ge> 1, limit \<ge> 1, a store that answers) the query
  sent to the store does not depend on the term; the products returned are exactly the
  products of the current page (the page returned without a term) whose lower-cased name or
  description contains the lower-cased term; total and totalPages are those of the count
  query, the same as without the term.
\<close>

theorem search_filters_the_page:
  assumes "reachable st" and "1 \<le> page p" and "1 \<le> limit p"
    and "search p = Some t" and "t \<noteq> []"
  shows "\<exists>r r0. ProductRepository_findWithQuery fs p st = Inr r
     \<and> ProductRepository_findWithQuery fs (p\<lparr>search := None\<rparr>) st = Inr r0
     \<and> (\<forall>s. product_query (p\<lparr>search := s\<rparr>) = product_query p)
     \<and> page_items r0 = take (nat (limit p)) (drop (nat ((page p - 1) * limit p))
                          (fs (wheres (product_query p)) (orderBy (product_query p)) (docs st)))
     \<and> page_items r = filter (\<lambda>x. str_includes (toLowerCase (product_name x)) (toLowerCase t)
                                 \<or> str_includes (toLowerCase (description x)) (toLowerCase t))
                         (page_items r0)
     \<and> (\<forall>x \<in> set (page_items r). x \<in> set (page_items r0)
            \<and> (str_includes (toLowerCase (product_name x)) (toLowerCase t)
                 \<or> str_includes (toLowerCase (description x)) (toLowerCase t)))
     \<and> query_count fs st (product_query p) = Inr (page_total r)
     \<and> page_total r = page_total r0 \<and> totalPages r = totalPages r0
     \<and> totalPages r = Some \<lceil>rat_of_int (page_total r) / rat_of_int (limit p)\<rceil>"
proof -
  let ?all = "fs (wheres (product_query p)) (orderBy (product_query p)) (docs st)"
  let ?page = "take (nat (limit p)) (drop (nat ((page p - 1) * limit p)) ?all)"
  let ?m = "\<lambda>x. str_includes (toLowerCase (product_name x)) (toLowerCase t)
                 \<or> str_includes (toLowerCase (description x)) (toLowerCase t)"
  have r: "ProductRepository_findWithQuery fs p st
      = Inr \<lparr>page_items = filter ?m ?page, page_total = int (length ?all),
              totalPages = Some \<lceil>rat_of_int (int (length ?all)) / rat_of_int (limit p)\<rceil>,
              currentPage = page p\<rparr>"
    using product_page [OF assms(1-3), of fs] assms(4,5) by (simp add: search_filter_term)
  have r0: "ProductRepository_findWithQuery fs (p\<lparr>search := None\<rparr>) st
      = Inr \<lparr>page_items = ?page, page_total = int (length ?all),
              totalPages = Some \<lceil>rat_of_int (int (length ?all)) / rat_of_int (limit p)\<rceil>,
              currentPage = page p\<rparr>"
    using product_page [of st "p\<lparr>search := None\<rparr>" fs] assms(1-3) by (simp add: search_filter_def)
  have c: "query_count fs st (product_query p) = Inr (int (length ?all))"
    using assms(1) by (simp add: query_count_def)
  show ?thesis
    unfolding r r0 using c by simp
qed

lemma search_suco_value:
  "ProductRepository_findWithQuery all_engine search_suco sample_products
     = Inr \<lparr>page_items = [], page_total = 2, totalPages = Some 2, currentPage = 1\<rparr>"
  by code_simp

theorem search_filters_the_page_witness:
  "reachable sample_products \<and> 1 \<le> page search_suco \<and> 1 \<le> limit search_suco
   \<and> search search_suco = Some ''SUCO'' \<and> ''SUCO'' \<noteq> []
   \<and> (\<exists>r r0. ProductRepository_findWithQuery all_engine search_suco sample_products = Inr r
         \<and> ProductRepository_findWithQuery all_engine (search_suco\<lparr>search := None\<rparr>) sample_products = Inr r0
         \<and> page_items r = [] \<and> map product_name (page_items r0) = [''Pizza Margherita'']
         \<and> page_total r = 2 \<and> totalPages r = Some 2)"
proof -
  have h: "reachable sample_products" "1 \<le> page search_suco" "1 \<le> limit search_suco"
    "search search_suco = Some ''SUCO''" "''SUCO'' \<noteq> []"
    by (simp_all add: sample_products_def search_suco_def)
  from search_filters_the_page [OF h, of all_engine]
  obtain r r0 where r: "ProductRepository_findWithQuery all_engine search_suco sample_products = Inr r"
    and r0: "ProductRepository_findWithQuery all_engine (search_suco\<lparr>search := None\<rparr>) sample_products = Inr r0"
    and p0: "page_items r0 = take (nat (limit search_suco)) (drop (nat ((page search_suco - 1) * limit search_suco))
               (all_engine (wheres (product_query search_suco)) (orderBy (product_query search_suco))
                  (docs sample_products)))"
    by blast
  have v: "page_items r = []" "page_total r = 2" "totalPages r = Some 2"
    using r unfolding search_suco_value by auto
  have n: "map product_name (page_items r0) = [''Pizza Margherita'']"
    unfolding p0 by (simp add: search_suco_def sample_products_def all_engine_def)
  have "\<exists>r r0. ProductRepository_findWithQuery all_engine search_suco sample_products = Inr r
         \<and> ProductRepository_findWithQuery all_engine (search_suco\<lparr>search := None\<rparr>) sample_products = Inr r0
         \<and> page_items r = [] \<and> map product_name (page_items r0) = [''Pizza Margherita'']
         \<and> page_total r = 2 \<and> totalPages r = Some 2"
    by (rule exI [of _ r], rule exI [of _ r0]) (simp add: r r0 v n)
  with h show ?thesis by simp
qed

subsection \<open>Analytics\<close>

lemma foldl_count_order:
  "foldl count_order (bs, bc, ps) orders
     = (foldl (\<lambda>m ord. increment (status ord) m) bs orders,
        foldl (\<lambda>m ord. increment (channel ord) m) bc orders,
        foldl add_item ps (concat (map items orders)))"
  by (induction orders arbitrary: bs bc ps) (simp_all add: count_order_def)

lemma map_fst_map_entry:
  "map fst (map (\<lambda>(k, d). if k = i then (k, g d) else (k, d)) xs) = map fst xs"
  by (induction xs) auto

lemma add_item_inherited:
  "productId it \<in> set Object_prototype_names \<Longrightarrow> add_item ps it = ps"
  by (simp add: add_item_def)

lemma add_item_own:
  "productId it \<notin> set Object_prototype_names \<Longrightarrow>
   add_item ps it
     = map (\<lambda>(k, s). if k = productId it
                       then (k, s\<lparr>quantity := quantity s + qty it,
                                 revenue := revenue s + unitPrice it * qty it\<rparr>)
                       else (k, s))
         (if map_of ps (productId it) = None
          then ps @ [(productId it, \<lparr>stat_name = name it, quantity = 0, revenue = 0\<rparr>)]
          else ps)"
  by (simp add: add_item_def Let_def)

lemma add_item_keys:
  assumes "productId it \<notin> set Object_prototype_names"
  shows "map fst (add_item ps it)
     = (if map_of ps (productId it) = None then map fst ps @ [productId it] else map fst ps)"
  unfolding add_item_own [OF assms] map_fst_map_entry by simp

lemma add_item_lookup:
  assumes "productId it \<notin> set Object_prototype_names"
  shows "map_of (add_item ps it) pid
     = (if pid = productId it
        then Some ((case map_of ps pid of
                      None \<Rightarrow> \<lparr>stat_name = name it, quantity = 0, revenue = 0\<rparr>
                    | Some s \<Rightarrow> s)
                   \<lparr>quantity := quantity (case map_of ps pid of
                                   None \<Rightarrow> \<lparr>stat_name = name it, quantity = 0, revenue = 0\<rparr>
                                 | Some s \<Rightarrow> s) + qty it,
                    revenue := revenue (case map_of ps pid of
                                   None \<Rightarrow> \<lparr>stat_name = name it, quantity = 0, revenue = 0\<rparr>
                                 | Some s \<Rightarrow> s) + unitPrice it * qty it\<rparr>)
        else map_of ps pid)"
  unfolding add_item_own [OF assms] map_of_map_entry
  by (cases "map_of ps (productId it)") (auto simp add: map_add_def split: option.splits)

text \<open>Items whose productId names an inherited member leave no trace in \<open>productStats\<close>.\<close>

lemma foldl_add_item_own:
  "foldl add_item ps its
     = foldl add_item ps (filter (\<lambda>i. productId i \<notin> set Object_prototype_names) its)"
  by (induction its arbitrary: ps) (simp_all add: add_item_inherited)

lemma own_product_stats:
  assumes "\<forall>i \<in> set its. productId i \<notin> set Object_prototype_names"
  shows "distinct (map fst (foldl add_item [] its))
   \<and> set (map fst (foldl add_item [] its)) = productId ` set its
   \<and> (\<forall>pid s. map_of (foldl add_item [] its) pid = Some s \<longrightarrow>
          quantity s = (\<Sum>i\<leftarrow>filter (\<lambda>i. productId i = pid) its. qty i)
        \<and> revenue s = (\<Sum>i\<leftarrow>filter (\<lambda>i. productId i = pid) its. unitPrice i * qty i))"
  using assms
proof (induction its rule: rev_induct)
  case Nil
  show ?case by simp
next
  case (snoc it its)
  let ?ps = "foldl add_item [] its"
  from snoc.prems have own: "productId it \<notin> set Object_prototype_names"
    and rest: "\<forall>i \<in> set its. productId i \<notin> set Object_prototype_names" by simp_all
  from snoc.IH [OF rest]
  have d: "distinct (map fst ?ps)" and k: "set (map fst ?ps) = productId ` set its"
    and v: "\<And>pid s. map_of ?ps pid = Some s \<Longrightarrow>
          quantity s = (\<Sum>i\<leftarrow>filter (\<lambda>i. productId i = pid) its. qty i)
        \<and> revenue s = (\<Sum>i\<leftarrow>filter (\<lambda>i. productId i = pid) its. unitPrice i * qty i)"
    by blast+
  have none: "map_of ?ps pid = None \<longleftrightarrow> pid \<notin> productId ` set its" for pid
    using k by (simp add: map_of_eq_None_iff)
  have e: "foldl add_item [] (its @ [it]) = add_item ?ps it" by simp
  have 1: "distinct (map fst (add_item ?ps it))"
    using d k none [of "productId it"] by (auto simp add: add_item_keys [OF own])
  have 2: "set (map fst (add_item ?ps it)) = productId ` set (its @ [it])"
    using k none [of "productId it"] by (auto simp add: add_item_keys [OF own])
  have 3: "quantity s = (\<Sum>i\<leftarrow>filter (\<lambda>i. productId i = pid) (its @ [it]). qty i)
        \<and> revenue s = (\<Sum>i\<leftarrow>filter (\<lambda>i. productId i = pid) (its @ [it]). unitPrice i * qty i)"
    if m: "map_of (add_item ?ps it) pid = Some s" for pid s
  proof (cases "pid = productId it")
    case False
    with m have "map_of ?ps pid = Some s" by (simp add: add_item_lookup [OF own])
    from v [OF this] False show ?thesis by simp
  next
    case True
    show ?thesis
    proof (cases "map_of ?ps pid")
      case None
      then have "pid \<notin> productId ` set its" using none by simp
      then have "filter (\<lambda>i. productId i = pid) its = []" by (auto simp add: filter_empty_conv)
      with m True None show ?thesis by (auto simp add: add_item_lookup [OF own])
    next
      case (Some s0)
      from v [OF this] m True Some show ?thesis by (auto simp add: add_item_lookup [OF own])
    qed
  qed
  show ?case unfolding e using 1 2 3 by blast
qed

lemma product_stats:
  "distinct (map fst (foldl add_item [] its))
   \<and> set (map fst (foldl add_item [] its))
        = productId ` set (filter (\<lambda>i. productId i \<notin> set Object_prototype_names) its)
   \<and> (\<forall>pid s. map_of (foldl add_item [] its) pid = Some s \<longrightarrow>
          quantity s = (\<Sum>i\<leftarrow>filter (\<lambda>i. productId i = pid) its. qty i)
        \<and> revenue s = (\<Sum>i\<leftarrow>filter (\<lambda>i. productId i = pid) its. unitPrice i * qty i))"
proof -
  let ?own = "filter (\<lambda>i. productId i \<notin> set Object_prototype_names) its"
  have o: "distinct (map fst (foldl add_item [] ?own))
   \<and> set (map fst (foldl add_item [] ?own)) = productId ` set ?own
   \<and> (\<forall>pid s. map_of (foldl add_item [] ?own) pid = Some s \<longrightarrow>
          quantity s = (\<Sum>i\<leftarrow>filter (\<lambda>i. productId i = pid) ?own. qty i)
        \<and> revenue s = (\<Sum>i\<leftarrow>filter (\<lambda>i. productId i = pid) ?own. unitPrice i * qty i))"
    by (rule own_product_stats) simp
  have f: "filter (\<lambda>i. productId i = pid) ?own = filter (\<lambda>i. productId i = pid) its"
    if "pid \<in> productId ` set ?own" for pid
    using that by (auto intro!: filter_cong)
  have m: "pid \<in> productId ` set ?own" if "map_of (foldl add_item [] ?own) pid = Some s" for pid s
  proof -
    from that have "pid \<in> set (map fst (foldl add_item [] ?own))"
      by (metis map_of_eq_None_iff option.distinct(1) set_map)
    with o show ?thesis by simp
  qed
  show ?thesis
    unfolding foldl_add_item_own [of "[]" its]
    using o f m by (metis (no_types, lifting))
qed

lemma increment_keys: "map fst (increment k m) = map fst m"
  by (induction m) (auto simp: increment_def)

lemma map_of_increment:
  "map_of (increment k m) j = (if j = k then map_option (\<lambda>n. n + 1) (map_of m k) else map_of m j)"
  unfolding increment_def by (rule map_of_map_entry)

lemma sum_increment:
  "distinct (map fst m) \<Longrightarrow> k \<in> set (map fst m)
     \<Longrightarrow> sum_list (map snd (increment k m)) = sum_list (map snd m) + 1"
proof (induction m)
  case Nil
  then show ?case by simp
next
  case (Cons e m)
  obtain k' n where e: "e = (k', n)" by (cases e)
  show ?case
  proof (cases "k' = k")
    case True
    with Cons.prems e have "k \<notin> set (map fst m)" by simp
    then have "increment k m = m"
      unfolding increment_def by (induction m) auto
    with True e show ?thesis by (simp add: increment_def)
  next
    case False
    with Cons e show ?thesis by (simp add: increment_def)
  qed
qed

lemma foldl_increment_keys:
  "map fst (foldl (\<lambda>m x. increment (f x) m) m0 xs) = map fst m0"
  by (induction xs arbitrary: m0) (simp_all add: increment_keys)

lemma foldl_increment_count:
  "map_of (foldl (\<lambda>m x. increment (f x) m) m0 xs) k
     = map_option (\<lambda>n. n + int (length (filter (\<lambda>x. f x = k) xs))) (map_of m0 k)"
proof (induction xs arbitrary: m0)
  case Nil
  then show ?case by (simp add: option.map_ident)
next
  case (Cons x xs)
  show ?case
    by (cases "map_of m0 k") (auto simp add: Cons.IH map_of_increment)
qed

lemma foldl_increment_sum:
  assumes "distinct (map fst m0)" and "\<forall>x \<in> set xs. f x \<in> set (map fst m0)"
  shows "sum_list (map snd (foldl (\<lambda>m x. increment (f x) m) m0 xs))
     = sum_list (map snd m0) + int (length xs)"
  using assms
proof (induction xs arbitrary: m0)
  case Nil
  then show ?case by simp
next
  case (Cons x xs)
  have "sum_list (map snd (foldl (\<lambda>m x. increment (f x) m) (increment (f x) m0) xs))
      = sum_list (map snd (increment (f x) m0)) + int (length xs)"
    using Cons.prems by (intro Cons.IH) (simp_all add: increment_keys)
  also have "sum_list (map snd (increment (f x) m0)) = sum_list (map snd m0) + 1"
    using Cons.prems by (intro sum_increment) simp_all
  finally show ?case by simp
qed

lemma set_Object_entries: "set (Object_entries obj) = set obj"
  by (auto simp add: Object_entries_def)

lemma distinct_Object_entries: "distinct obj \<Longrightarrow> distinct (Object_entries obj)"
  by (auto simp add: Object_entries_def)

lemma length_Object_entries: "length (Object_entries obj) = length obj"
  using sum_length_filter_compl [of "\<lambda>e. is_array_index (fst e)" obj]
  by (simp add: Object_entries_def)

lemma distinct_keys_sorted_entries:
  assumes "distinct (map fst ps)"
  shows "distinct (map fst (sort_key f (Object_entries ps)))"
proof -
  from assms have d: "distinct ps" and i: "inj_on fst (set ps)" by (simp_all add: distinct_map)
  have "distinct (sort_key f (Object_entries ps))"
    using d by (simp add: distinct_Object_entries)
  moreover have "inj_on fst (set (sort_key f (Object_entries ps)))"
    using i by (simp add: set_Object_entries)
  ultimately show ?thesis by (simp add: distinct_map)
qed

lemma top_ten:
  fixes ps :: "(string \<times> ProductStat) list"
  assumes "distinct (map fst ps)"
  shows "length (take 10 (sort_key (\<lambda>e. - revenue (snd e)) (Object_entries ps))) \<le> 10"
    and "sorted_wrt (\<lambda>x y. revenue (snd y) \<le> revenue (snd x))
           (take 10 (sort_key (\<lambda>e. - revenue (snd e)) (Object_entries ps)))"
    and "distinct (map fst (take 10 (sort_key (\<lambda>e. - revenue (snd e)) (Object_entries ps))))"
    and "set (take 10 (sort_key (\<lambda>e. - revenue (snd e)) (Object_entries ps))) \<subseteq> set ps"
    and "length ps \<le> 10 \<Longrightarrow> set (take 10 (sort_key (\<lambda>e. - revenue (snd e)) (Object_entries ps))) = set ps"
    and "e \<in> set ps \<Longrightarrow> e \<notin> set (take 10 (sort_key (\<lambda>e. - revenue (snd e)) (Object_entries ps)))
           \<Longrightarrow> length (take 10 (sort_key (\<lambda>e. - revenue (snd e)) (Object_entries ps))) = 10
               \<and> (\<forall>t \<in> set (take 10 (sort_key (\<lambda>e. - revenue (snd e)) (Object_entries ps))).
                     revenue (snd e) \<le> revenue (snd t))"
proof -
  let ?ys = "sort_key (\<lambda>e. - revenue (snd e)) (Object_entries ps)"
  have s: "set ?ys = set ps" by (simp add: set_Object_entries)
  have l: "length ?ys = length ps" by (simp add: length_Object_entries)
  have srt: "sorted_wrt (\<lambda>x y. revenue (snd y) \<le> revenue (snd x)) ?ys"
    using sorted_sort_key [of "\<lambda>e. - revenue (snd e)" "Object_entries ps"]
    by (simp add: sorted_map)
  show "length (take 10 ?ys) \<le> 10" by simp
  show "sorted_wrt (\<lambda>x y. revenue (snd y) \<le> revenue (snd x)) (take 10 ?ys)"
    using srt by (rule sorted_wrt_take)
  show "distinct (map fst (take 10 ?ys))"
    using distinct_keys_sorted_entries [OF assms, of "\<lambda>e. - revenue (snd e)"]
    by (simp add: take_map [symmetric] distinct_take)
  show "set (take 10 ?ys) \<subseteq> set ps"
    using set_take_subset [of 10 ?ys] s by simp
  show "set (take 10 ?ys) = set ps" if "length ps \<le> 10"
    using that l s by simp
  show "length (take 10 ?ys) = 10 \<and> (\<forall>t \<in> set (take 10 ?ys). revenue (snd e) \<le> revenue (snd t))"
    if "e \<in> set ps" and "e \<notin> set (take 10 ?ys)"
  proof -
    have "set ?ys = set (take 10 ?ys) \<union> set (drop 10 ?ys)"
      using set_append [of "take 10 ?ys" "drop 10 ?ys"] by simp
    with that s have e: "e \<in> set (drop 10 ?ys)" by blast
    then have "drop 10 ?ys \<noteq> []" by auto
    then have len: "length (take 10 ?ys) = 10" by simp
    have "sorted_wrt (\<lambda>x y. revenue (snd y) \<le> revenue (snd x)) (take 10 ?ys @ drop 10 ?ys)"
      using srt by simp
    then have "\<forall>t \<in> set (take 10 ?ys). \<forall>d \<in> set (drop 10 ?ys). revenue (snd d) \<le> revenue (snd t)"
      unfolding sorted_wrt_append by blast
    with e len show ?thesis by blast
  qed
qed

lemma foldl_revenue:
  "foldl (\<lambda>sum ord. sum + total (amounts ord)) a orders = a + (\<Sum>ord\<leftarrow>orders. total (amounts ord))"
  by (induction orders arbitrary: a) simp_all

lemma analytics_query_fields:
  "orderBy (analytics_query s e) = None" "limitTo (analytics_query s e) = None"
  by (simp_all add: analytics_query_def getCollection_def where_clause_def Let_def split: option.splits)

lemma getAnalytics_reachable:
  assumes "reachable st"
  shows "query_get fs st (analytics_query s e)
           = Inr (fs (wheres (analytics_query s e)) None (docs st))"
    and "getAnalytics fs s e st =
     (let orders = fs (wheres (analytics_query s e)) None (docs st)
      in Inr \<lparr>totalOrders = int (length orders),
               totalRevenue = (\<Sum>ord\<leftarrow>orders. total (amounts ord)),
               averageOrderValue =
                 (if orders = [] then Some 0
                  else Some (rat_of_int (\<Sum>ord\<leftarrow>orders. total (amounts ord)) / rat_of_int (int (length orders)))),
               ordersByStatus =
                 foldl (\<lambda>m ord. increment (status ord) m)
                   [(Draft, 0), (Placed, 0), (Confirmed, 0), (In_preparation, 0), (Ready, 0),
                    (Served, 0), (Closed, 0), (Canceled, 0)] orders,
               ordersByChannel =
                 foldl (\<lambda>m ord. increment (channel ord) m)
                   [(Dine_in, 0), (Takeaway, 0), (Delivery, 0)] orders,
               topProducts =
                 take 10 (sort_key (\<lambda>e. - revenue (snd e))
                   (Object_entries (foldl add_item [] (concat (map items orders)))))\<rparr>)"
  using assms
  by (simp_all add: getAnalytics_def executeQuery_def rethrow_def query_get_def analytics_query_fields
      foldl_count_order foldl_revenue js_divide_def Let_def)

text \<open>
  C8. On a store that answers, \<open>getAnalytics\<close> returns an averageOrderValue that is always
  a finite number: totalRevenue / totalOrders when there is at least one matching order,
  and 0 when the matching order set is empty (the division is not evaluated then).
\<close>

theorem averageOrderValue_defined:
  assumes "reachable st"
  shows "\<exists>a orders. query_get fs st (analytics_query startDate endDate) = Inr orders
     \<and> getAnalytics fs startDate endDate st = Inr a
     \<and> totalOrders a = int (length orders)
     \<and> totalRevenue a = (\<Sum>ord\<leftarrow>orders. total (amounts ord))
     \<and> averageOrderValue a \<noteq> None
     \<and> (0 < totalOrders a \<longrightarrow>
           averageOrderValue a = Some (rat_of_int (totalRevenue a) / rat_of_int (totalOrders a)))
     \<and> (orders = [] \<longrightarrow> averageOrderValue a = Some 0)"
  unfolding getAnalytics_reachable [OF assms] Let_def by simp

lemma analytics_values:
  "getAnalytics all_engine None None no_orders =
     Inr \<lparr>totalOrders = 0, totalRevenue = 0, averageOrderValue = Some 0,
          ordersByStatus = [(Draft, 0), (Placed, 0), (Confirmed, 0), (In_preparation, 0), (Ready, 0),
                            (Served, 0), (Closed, 0), (Canceled, 0)],
          ordersByChannel = [(Dine_in, 0), (Takeaway, 0), (Delivery, 0)],
          topProducts = []\<rparr>"
  "getAnalytics all_engine None None two_orders =
     Inr \<lparr>totalOrders = 2, totalRevenue = 8498, averageOrderValue = Some 4249,
          ordersByStatus = [(Draft, 0), (Placed, 1), (Confirmed, 0), (In_preparation, 0), (Ready, 0),
                            (Served, 0), (Closed, 1), (Canceled, 0)],
          ordersByChannel = [(Dine_in, 1), (Takeaway, 1), (Delivery, 0)],
          topProducts = [(''prod-01'', \<lparr>stat_name = ''Pizza'', quantity = 2, revenue = 5780\<rparr>),
                         (''prod-02'', \<lparr>stat_name = ''Suco de Laranja'', quantity = 2, revenue = 1780\<rparr>)]\<rparr>"
  by code_simp+

theorem averageOrderValue_defined_witness:
  "reachable no_orders \<and> reachable two_orders
   \<and> (\<exists>a. getAnalytics all_engine None None no_orders = Inr a \<and> totalOrders a = 0
          \<and> averageOrderValue a = Some 0)
   \<and> (\<exists>a. getAnalytics all_engine None None two_orders = Inr a \<and> totalOrders a = 2
          \<and> totalRevenue a = 8498 \<and> averageOrderValue a = Some 4249)"
proof -
  have h: "reachable no_orders" "reachable two_orders"
    by (simp_all add: no_orders_def two_orders_def)
  show ?thesis
    using averageOrderValue_defined [OF h(1), of all_engine None None]
      averageOrderValue_defined [OF h(2), of all_engine None None] h
    by (simp add: analytics_values)
qed

lemma status_keys:
  "s \<in> set [Draft, Placed, Confirmed, In_preparation, Ready, Served, Closed, Canceled]"
  by (cases s) simp_all

lemma channel_keys: "c \<in> set [Dine_in, Takeaway, Delivery]"
  by (cases c) simp_all

lemma status_counts:
  "map_of (foldl (\<lambda>m ord. increment (status ord) m)
             [(Draft, 0), (Placed, 0), (Confirmed, 0), (In_preparation, 0), (Ready, 0),
              (Served, 0), (Closed, 0), (Canceled, 0)] orders) s
     = Some (int (length (filter (\<lambda>ord. status ord = s) orders)))"
  unfolding foldl_increment_count by (cases s) simp_all

lemma channel_counts:
  "map_of (foldl (\<lambda>m ord. increment (channel ord) m)
             [(Dine_in, 0), (Takeaway, 0), (Delivery, 0)] orders) c
     = Some (int (length (filter (\<lambda>ord. channel ord = c) orders)))"
  unfolding foldl_increment_count by (cases c) simp_all

text \<open>
  C7. On a store that answers, \<open>getAnalytics\<close> returns ordersByStatus and
  ordersByChannel with every member of the status and channel enumerations as a key, each
  with the number of matching orders in that group (0 when there is none); the
  ordersByStatus counts sum to totalOrders; topProducts has at most 10 entries, one per
  productId, sorted by descending revenue, each with quantity the sum of qty and revenue
  the sum of unitPrice * qty over the items of that product (option prices excluded).
  The products grouped are those whose productId does not name a member inherited from
  \<open>Object.prototype\<close>: such a product is never listed, whatever its revenue. With at most
  10 other products every one of them is listed, and one left out has a revenue no greater
  than any listed one.
\<close>

theorem analytics_groups:
  assumes "reachable st"
  shows "\<exists>a orders. query_get fs st (analytics_query startDate endDate) = Inr orders
     \<and> getAnalytics fs startDate endDate st = Inr a
     \<and> totalOrders a = int (length orders)
     \<and> map fst (ordersByStatus a)
          = [Draft, Placed, Confirmed, In_preparation, Ready, Served, Closed, Canceled]
     \<and> map fst (ordersByChannel a) = [Dine_in, Takeaway, Delivery]
     \<and> (\<forall>s. map_of (ordersByStatus a) s = Some (int (length (filter (\<lambda>ord. status ord = s) orders))))
     \<and> (\<forall>c. map_of (ordersByChannel a) c = Some (int (length (filter (\<lambda>ord. channel ord = c) orders))))
     \<and> sum_list (map snd (ordersByStatus a)) = totalOrders a
     \<and> length (topProducts a) \<le> 10
     \<and> sorted_wrt (\<lambda>x y. revenue (snd y) \<le> revenue (snd x)) (topProducts a)
     \<and> distinct (map fst (topProducts a))
     \<and> (\<forall>(pid, s) \<in> set (topProducts a).
           pid \<in> productId ` set (concat (map items orders))
           \<and> pid \<notin> set Object_prototype_names
           \<and> quantity s = (\<Sum>i\<leftarrow>filter (\<lambda>i. productId i = pid) (concat (map items orders)). qty i)
           \<and> revenue s
               = (\<Sum>i\<leftarrow>filter (\<lambda>i. productId i = pid) (concat (map items orders)). unitPrice i * qty i))
     \<and> (card (productId ` set (concat (map items orders)) - set Object_prototype_names) \<le> 10 \<longrightarrow>
           fst ` set (topProducts a)
             = productId ` set (concat (map items orders)) - set Object_prototype_names)
     \<and> (\<forall>pid \<in> productId ` set (concat (map items orders)) - set Object_prototype_names.
           pid \<notin> fst ` set (topProducts a) \<longrightarrow>
             length (topProducts a) = 10
             \<and> (\<forall>t \<in> set (topProducts a).
                   (\<Sum>i\<leftarrow>filter (\<lambda>i. productId i = pid) (concat (map items orders)). unitPrice i * qty i)
                     \<le> revenue (snd t)))"
proof -
  let ?orders = "fs (wheres (analytics_query startDate endDate)) None (docs st)"
  let ?its = "concat (map items ?orders)"
  let ?own = "productId ` set ?its - set Object_prototype_names"
  let ?ps = "foldl add_item [] ?its"
  let ?top = "take 10 (sort_key (\<lambda>e. - revenue (snd e)) (Object_entries ?ps))"
  let ?bs = "foldl (\<lambda>m ord. increment (status ord) m)
                   [(Draft, 0), (Placed, 0), (Confirmed, 0), (In_preparation, 0), (Ready, 0),
                    (Served, 0), (Closed, 0), (Canceled, 0)] ?orders"
  let ?bc = "foldl (\<lambda>m ord. increment (channel ord) m)
                   [(Dine_in, 0), (Takeaway, 0), (Delivery, 0)] ?orders"
  let ?a = "\<lparr>totalOrders = int (length ?orders),
             totalRevenue = (\<Sum>ord\<leftarrow>?orders. total (amounts ord)),
             averageOrderValue =
               (if ?orders = [] then Some 0
                else Some (rat_of_int (\<Sum>ord\<leftarrow>?orders. total (amounts ord)) / rat_of_int (int (length ?orders)))),
             ordersByStatus = ?bs, ordersByChannel = ?bc, topProducts = ?top\<rparr>"
  have q: "query_get fs st (analytics_query startDate endDate) = Inr ?orders"
    and g: "getAnalytics fs startDate endDate st = Inr ?a"
    using getAnalytics_reachable [OF assms, of fs startDate endDate] by (simp_all add: Let_def)
  have own: "productId ` set (filter (\<lambda>i. productId i \<notin> set Object_prototype_names) ?its) = ?own"
    by auto
  from product_stats [of ?its]
  have d: "distinct (map fst ?ps)" and k: "set (map fst ?ps) = ?own"
    and v: "\<And>pid s. map_of ?ps pid = Some s \<Longrightarrow>
          quantity s = (\<Sum>i\<leftarrow>filter (\<lambda>i. productId i = pid) ?its. qty i)
        \<and> revenue s = (\<Sum>i\<leftarrow>filter (\<lambda>i. productId i = pid) ?its. unitPrice i * qty i)"
    unfolding own by blast+
  have mem: "pid \<in> productId ` set ?its \<and> pid \<notin> set Object_prototype_names
        \<and> quantity s = (\<Sum>i\<leftarrow>filter (\<lambda>i. productId i = pid) ?its. qty i)
        \<and> revenue s = (\<Sum>i\<leftarrow>filter (\<lambda>i. productId i = pid) ?its. unitPrice i * qty i)"
    if "(pid, s) \<in> set ?ps" for pid s
  proof -
    from that d have "map_of ?ps pid = Some s" by simp
    moreover from that have "pid \<in> set (map fst ?ps)" by force
    then have "pid \<in> ?own" unfolding k .
    ultimately show ?thesis using v [of pid s] by simp
  qed
  have 1: "map fst ?bs = [Draft, Placed, Confirmed, In_preparation, Ready, Served, Closed, Canceled]"
    and 2: "map fst ?bc = [Dine_in, Takeaway, Delivery]"
    by (simp_all add: foldl_increment_keys)
  have 3: "sum_list (map snd ?bs) = int (length ?orders)"
    using foldl_increment_sum [of "[(Draft, 0), (Placed, 0), (Confirmed, 0), (In_preparation, 0),
        (Ready, 0), (Served, 0), (Closed, 0), (Canceled, 0)]" ?orders status] status_keys
    by simp
  have 4: "\<forall>(pid, s) \<in> set ?top.
           pid \<in> productId ` set ?its \<and> pid \<notin> set Object_prototype_names
           \<and> quantity s = (\<Sum>i\<leftarrow>filter (\<lambda>i. productId i = pid) ?its. qty i)
           \<and> revenue s = (\<Sum>i\<leftarrow>filter (\<lambda>i. productId i = pid) ?its. unitPrice i * qty i)"
    using top_ten(4) [OF d] mem by blast
  have 5: "fst ` set ?top = ?own" if c: "card ?own \<le> 10"
  proof -
    have "length ?ps = card (set (map fst ?ps))"
      using distinct_card [OF d] by simp
    with c k have "length ?ps \<le> 10" by simp
    from top_ten(5) [OF d this] k show ?thesis by simp
  qed
  have 6: "length ?top = 10
        \<and> (\<forall>t \<in> set ?top.
              (\<Sum>i\<leftarrow>filter (\<lambda>i. productId i = pid) ?its. unitPrice i * qty i) \<le> revenue (snd t))"
    if p: "pid \<in> ?own" and n: "pid \<notin> fst ` set ?top" for pid
  proof -
    from p k have "pid \<in> set (map fst ?ps)" by simp
    then obtain s where e: "(pid, s) \<in> set ?ps" by force
    with n have "(pid, s) \<notin> set ?top" by force
    from top_ten(6) [OF d e this] mem [OF e] show ?thesis by simp
  qed
  show ?thesis
    apply (rule exI [of _ ?a], rule exI [of _ ?orders])
    apply (intro conjI q g)
    subgoal by simp
    subgoal using 1 by simp
    subgoal using 2 by simp
    subgoal by (simp add: status_counts)
    subgoal by (simp add: channel_counts)
    subgoal using 3 by simp
    subgoal using top_ten(1) [OF d] by simp
    subgoal using top_ten(2) [OF d] by simp
    subgoal using top_ten(3) [OF d] by simp
    subgoal using 4 by simp
    subgoal using 5 by simp
    subgoal using 6 by simp
    done
qed

text \<open>
  Two orders hold three products; the one sold under the productId \<open>constructor\<close> has the
  highest revenue (3000) and is missing from topProducts.
\<close>

lemma constructor_orders_values:
  "map (\<lambda>i. (productId i, unitPrice i * qty i))
       (concat (map items (all_engine [] None (docs constructor_orders))))
     = [(''prod-01'', 2890), (''constructor'', 3000), (''prod-02'', 1780)]"
  "getAnalytics all_engine None None constructor_orders =
     Inr \<lparr>totalOrders = 2, totalRevenue = 8498, averageOrderValue = Some 4249,
          ordersByStatus = [(Draft, 0), (Placed, 1), (Confirmed, 0), (In_preparation, 0), (Ready, 0),
                            (Served, 0), (Closed, 1), (Canceled, 0)],
          ordersByChannel = [(Dine_in, 1), (Takeaway, 1), (Delivery, 0)],
          topProducts = [(''prod-01'', \<lparr>stat_name = ''Pizza'', quantity = 1, revenue = 2890\<rparr>),
                         (''prod-02'', \<lparr>stat_name = ''Suco de Laranja'', quantity = 2, revenue = 1780\<rparr>)]\<rparr>"
  by code_simp+

theorem analytics_groups_witness:
  "reachable constructor_orders
   \<and> (\<exists>a. getAnalytics all_engine None None constructor_orders = Inr a
         \<and> totalOrders a = 2
         \<and> ordersByStatus a = [(Draft, 0), (Placed, 1), (Confirmed, 0), (In_preparation, 0), (Ready, 0),
                                (Served, 0), (Closed, 1), (Canceled, 0)]
         \<and> ordersByChannel a = [(Dine_in, 1), (Takeaway, 1), (Delivery, 0)]
         \<and> topProducts a = [(''prod-01'', \<lparr>stat_name = ''Pizza'', quantity = 1, revenue = 2890\<rparr>),
                             (''prod-02'', \<lparr>stat_name = ''Suco de Laranja'', quantity = 2, revenue = 1780\<rparr>)])"
proof -
  have h: "reachable constructor_orders" by (simp add: constructor_orders_def)
  show ?thesis
    using analytics_groups [OF h, of all_engine None None] h
    by (simp add: constructor_orders_values)
qed

end
